theory Spec2Isabelle
  imports Complex_Main
begin

section \<open>Data model (types/index.d.ts)\<close>

text \<open>
  JavaScript numbers that the SDK only stores and passes on (confidence scores, percentages,
  remaining seconds) are rationals. The clock (\<^verbatim>\<open>Date.now()\<close>, \<^verbatim>\<open>new Date()\<close>) counts
  milliseconds as a natural number.
\<close>

type_synonym number = rat

datatype ConnectionState = Disconnected | Connecting | Connected | Error

datatype MessageType = User | Assistant | System | ErrorMessage | Warning

datatype MessageKind = Initial | WarningKind | Hangup | InterruptionKind

record EmotionData =
  emotion :: string
  percentage :: number

record WordResult =
  word :: string
  wordStart :: number
  wordEnd :: number
  wordConfidence :: number

record TurnDetectionResult =
  isComplete :: bool
  turnConfidence :: number
  reasons :: "string list"
  processingTime :: "number option"

text \<open>
  \<^verbatim>\<open>VoiceMessage['metadata']\<close>: every key is optional. A key that is absent and a key
  holding \<^verbatim>\<open>undefined\<close> read the same way in the code below, so both are \<open>None\<close>.
\<close>

record Metadata =
  confidence :: "number option"
  emotions :: "EmotionData list option"
  isFinal :: "bool option"
  generationId :: "string option"
  isStreaming :: "bool option"
  isInterrupted :: "bool option"
  turnComplete :: "bool option"
  isUtteranceEnd :: "bool option"
  messageType :: "MessageKind option"
  words :: "WordResult list option"
  turnResult :: "TurnDetectionResult option"

record VoiceMessage =
  msgId :: string
  msgType :: MessageType
  content :: string
  timestamp :: nat
  metadata :: "Metadata option"

record AudioConfig =
  sampleRate :: "number option"
  channels :: "number option"
  encoding :: "string option"
  echoCancellation :: "bool option"
  noiseSuppression :: "bool option"
  autoGainControl :: "bool option"

record ConnectionMetadata =
  metaConnectionId :: string
  metaStatus :: string
  metaConfig :: AudioConfig
  metaProjectId :: string
  metaConfigId :: string

record IdleWarning =
  active :: bool
  timeRemaining :: "number option"
  warningType :: "string option"

text \<open>\<^verbatim>\<open>error?: string | null\<close>: the field is undefined, null, or a message.\<close>

datatype ErrorField = ErrorUndefined | ErrorNull | ErrorText string

record VoiceState =
  readyState :: ConnectionState
  messages :: "VoiceMessage list"
  isRecording :: bool
  isTTSPlaying :: bool
  isWaitingForResponse :: bool
  connectionMetadata :: "ConnectionMetadata option"
  error :: ErrorField
  idleWarning :: "IdleWarning option"

record TranscriptionMeta =
  sessionId :: "string option"
  eventType :: "string option"
  transcriptionProcessingTime :: "number option"

record TranscriptionResult =
  transcript :: string
  resultConfidence :: number
  resultIsFinal :: bool
  isInterim :: bool
  isSpeechFinal :: "bool option"
  resultIsUtteranceEnd :: "bool option"
  resultWords :: "WordResult list option"
  resultTurnComplete :: "bool option"
  resultMetadata :: "TranscriptionMeta option"

record LLMResponseChunk =
  chunkContent :: string
  chunkIsFinal :: bool
  chunkGenerationId :: "string option"
  chunkIndex :: "number option"

record TurnCompleteMessage =
  turnMessageResult :: TurnDetectionResult
  turnTranscript :: string
  turnTimestamp :: "number option"

section \<open>The environment of one handler run\<close>

text \<open>
  What a handler reads from outside during one synchronous run: \<^verbatim>\<open>Date.now()\<close>,
  \<^verbatim>\<open>new Date()\<close> and \<^verbatim>\<open>Math.random().toString(36).substr(2, 9)\<close>.
\<close>

record Env =
  dateNow :: nat
  newDate :: nat
  randomSuffix :: string

text \<open>Template strings print an integer in decimal.\<close>

definition digitChar :: "nat \<Rightarrow> char" where
  "digitChar d = char_of (48 + d)"

fun showNat :: "nat \<Rightarrow> string" where
  "showNat n = (if n < 10 then [digitChar n] else showNat (n div 10) @ [digitChar (n mod 10)])"

declare showNat.simps [simp del]

text \<open>
  \<^verbatim>\<open>String.prototype.trim\<close> on 8-bit characters: tab, line feed, vertical tab, form feed,
  carriage return, space and the no-break space are stripped from both ends.
\<close>

definition isWhiteSpace :: "char \<Rightarrow> bool" where
  "isWhiteSpace c = (of_char c \<in> {9, 10, 11, 12, 13, 32, 160 :: nat})"

definition trim :: "string \<Rightarrow> string" where
  "trim s = rev (dropWhile isWhiteSpace (rev (dropWhile isWhiteSpace s)))"

section \<open>The state reducer (components/VoiceProvider.tsx)\<close>

text \<open>
  The metadata object of an \<^verbatim>\<open>UPDATE_MESSAGE_METADATA\<close> payload, key by key: a key is
  absent (\<open>None\<close>) or present, holding a value or \<^verbatim>\<open>undefined\<close> (\<open>Some None\<close>).
\<close>

record MetadataPayload =
  confidenceKey :: "number option option"
  emotionsKey :: "EmotionData list option option"
  isFinalKey :: "bool option option"
  generationIdKey :: "string option option"
  isStreamingKey :: "bool option option"
  isInterruptedKey :: "bool option option"
  turnCompleteKey :: "bool option option"
  isUtteranceEndKey :: "bool option option"
  messageTypeKey :: "MessageKind option option"
  wordsKey :: "WordResult list option option"
  turnResultKey :: "TurnDetectionResult option option"

datatype VoiceAction =
    SET_CONNECTION_STATE ConnectionState
  | SET_RECORDING bool
  | SET_TTS_PLAYING bool
  | SET_WAITING_FOR_RESPONSE bool
  | ADD_MESSAGE VoiceMessage
  | UPDATE_STREAMING_MESSAGE string MessageType
  | FINALIZE_STREAMING_MESSAGE string string
  | UPDATE_MESSAGE_METADATA string "MetadataPayload option"
  | ADD_EMOTIONS_TO_LATEST_USER_MESSAGE "EmotionData list"
  | CLEAR_MESSAGES
  | SET_CONNECTION_METADATA ConnectionMetadata
  | SET_ERROR ErrorField
  | SET_IDLE_WARNING bool "number option" "string option"
  | RESET_STATE

definition initialState :: VoiceState where
  "initialState = \<lparr> readyState = Disconnected, messages = [], isRecording = False,
     isTTSPlaying = False, isWaitingForResponse = False, connectionMetadata = None,
     error = ErrorUndefined, idleWarning = None \<rparr>"

definition emptyMetadata :: Metadata where
  "emptyMetadata = \<lparr> confidence = None, emotions = None, isFinal = None, generationId = None,
     isStreaming = None, isInterrupted = None, turnComplete = None, isUtteranceEnd = None,
     messageType = None, words = None, turnResult = None \<rparr>"

text \<open>\<^verbatim>\<open>{ ...msg.metadata }\<close>: spreading undefined gives the empty object.\<close>

definition spread :: "Metadata option \<Rightarrow> Metadata" where
  "spread md = (case md of None \<Rightarrow> emptyMetadata | Some m \<Rightarrow> m)"

definition override :: "'a option option \<Rightarrow> 'a option \<Rightarrow> 'a option" where
  "override key old = (case key of None \<Rightarrow> old | Some v \<Rightarrow> v)"

text \<open>
  \<^verbatim>\<open>{ ...msg.metadata, ...action.payload.metadata }\<close>: every key the payload has replaces
  the stored one, also when it holds \<^verbatim>\<open>undefined\<close>.
\<close>

definition mergeMetadata :: "Metadata \<Rightarrow> MetadataPayload \<Rightarrow> Metadata" where
  "mergeMetadata a b = \<lparr> confidence = override (confidenceKey b) (confidence a),
     emotions = override (emotionsKey b) (emotions a),
     isFinal = override (isFinalKey b) (isFinal a),
     generationId = override (generationIdKey b) (generationId a),
     isStreaming = override (isStreamingKey b) (isStreaming a),
     isInterrupted = override (isInterruptedKey b) (isInterrupted a),
     turnComplete = override (turnCompleteKey b) (turnComplete a),
     isUtteranceEnd = override (isUtteranceEndKey b) (isUtteranceEnd a),
     messageType = override (messageTypeKey b) (messageType a),
     words = override (wordsKey b) (words a),
     turnResult = override (turnResultKey b) (turnResult a) \<rparr>"

text \<open>\<^verbatim>\<open>msg.metadata?.isStreaming\<close> as a condition.\<close>

definition streamingFlag :: "VoiceMessage \<Rightarrow> bool" where
  "streamingFlag msg = (case metadata msg of None \<Rightarrow> False | Some md \<Rightarrow> isStreaming md = Some True)"

text \<open>\<^verbatim>\<open>msg.type === 'user' && !msg.metadata?.emotions\<close>; an array, even empty, is truthy.\<close>

definition userWithoutEmotions :: "VoiceMessage \<Rightarrow> bool" where
  "userWithoutEmotions msg = (msgType msg = User \<and>
     (case metadata msg of None \<Rightarrow> True | Some md \<Rightarrow> emotions md = None))"

text \<open>
  \<^verbatim>\<open>messages.map((msg, idx) => ({ msg, idx })).reverse().find(...)?.idx\<close>
\<close>

definition lastUserMessageIndex :: "VoiceMessage list \<Rightarrow> nat option" where
  "lastUserMessageIndex msgs =
     map_option snd (find (\<lambda>(msg, idx). userWithoutEmotions msg) (rev (zip msgs [0..<length msgs])))"

definition finalizeMessage :: "string \<Rightarrow> string \<Rightarrow> VoiceMessage \<Rightarrow> VoiceMessage" where
  "finalizeMessage i c msg =
     (if msgId msg = i
      then msg\<lparr> content := c, metadata := Some ((spread (metadata msg))\<lparr> isStreaming := Some False \<rparr>) \<rparr>
      else msg)"

definition updateMetadata :: "string \<Rightarrow> MetadataPayload option \<Rightarrow> VoiceMessage \<Rightarrow> VoiceMessage" where
  "updateMetadata i md msg =
     (if msgId msg = i
      then msg\<lparr> metadata := Some (case md of
                                     None \<Rightarrow> spread (metadata msg)
                                   | Some payload \<Rightarrow> mergeMetadata (spread (metadata msg)) payload) \<rparr>
      else msg)"

fun voiceReducer :: "Env \<Rightarrow> VoiceState \<Rightarrow> VoiceAction \<Rightarrow> VoiceState" where
  "voiceReducer env state (SET_CONNECTION_STATE payload) =
     state\<lparr> readyState := payload, error := ErrorNull \<rparr>"
| "voiceReducer env state (SET_RECORDING payload) = state\<lparr> isRecording := payload \<rparr>"
| "voiceReducer env state (SET_TTS_PLAYING payload) = state\<lparr> isTTSPlaying := payload \<rparr>"
| "voiceReducer env state (SET_WAITING_FOR_RESPONSE payload) =
     state\<lparr> isWaitingForResponse := payload \<rparr>"
| "voiceReducer env state (ADD_MESSAGE payload) =
     state\<lparr> messages := messages state @ [payload] \<rparr>"
| "voiceReducer env state (UPDATE_STREAMING_MESSAGE c ty) =
     (let msgs = messages state in
      if 1 \<le> length msgs \<and> msgType (last msgs) = ty \<and> streamingFlag (last msgs)
      then state\<lparr> messages :=
             msgs[length msgs - 1 := (last msgs)\<lparr> content := c, timestamp := newDate env \<rparr>] \<rparr>
      else state\<lparr> messages := msgs @
             [\<lparr> msgId = ''streaming_'' @ showNat (dateNow env), msgType = ty, content = c,
                timestamp = newDate env,
                metadata = Some (emptyMetadata\<lparr> isStreaming := Some True \<rparr>) \<rparr>] \<rparr>)"
| "voiceReducer env state (FINALIZE_STREAMING_MESSAGE i c) =
     state\<lparr> messages := map (finalizeMessage i c) (messages state) \<rparr>"
| "voiceReducer env state (UPDATE_MESSAGE_METADATA i md) =
     state\<lparr> messages := map (updateMetadata i md) (messages state) \<rparr>"
| "voiceReducer env state (ADD_EMOTIONS_TO_LATEST_USER_MESSAGE es) =
     (let msgs = messages state in
      case lastUserMessageIndex msgs of
        Some i \<Rightarrow> state\<lparr> messages :=
          msgs[i := (msgs ! i)\<lparr> metadata := Some ((spread (metadata (msgs ! i)))\<lparr> emotions := Some es \<rparr>) \<rparr>] \<rparr>
      | None \<Rightarrow> state\<lparr> messages := msgs \<rparr>)"
| "voiceReducer env state CLEAR_MESSAGES = state\<lparr> messages := [] \<rparr>"
| "voiceReducer env state (SET_CONNECTION_METADATA payload) =
     state\<lparr> connectionMetadata := Some payload \<rparr>"
| "voiceReducer env state (SET_ERROR payload) = state\<lparr> error := payload \<rparr>"
| "voiceReducer env state (SET_IDLE_WARNING act remaining ty) =
     state\<lparr> idleWarning :=
       (if act then Some \<lparr> active = True, timeRemaining = remaining, warningType = ty \<rparr> else None) \<rparr>"
| "voiceReducer env state RESET_STATE = initialState"

section \<open>The transport channel (utils/websocket.ts)\<close>

text \<open>
  Everything the manager does to the outside, in the order it does it: calls of the
  registered \<^verbatim>\<open>events\<close> callbacks, timers it starts, sockets it closes, and the audio
  resources the audio manager lets go of.
\<close>

datatype Socket = WebSocket string

datatype Details = NoDetails | SocketEvent | CloseInfo nat string

record NextEVIError =
  errorMessage :: string
  errorCode :: string
  errorDetails :: Details

definition CONNECTION_FAILED :: string where
  "CONNECTION_FAILED = ''CONNECTION_FAILED''"

definition WEBSOCKET_ERROR :: string where
  "WEBSOCKET_ERROR = ''WEBSOCKET_ERROR''"

datatype Effect =
    StateChange ConnectionState
  | ErrorSignal NextEVIError
  | SetTimeout nat
  | SocketClose Socket nat string
  | MicWorkletDisconnected
  | TTSWorkletDisconnected
  | MediaTracksStopped
  | AudioContextClosed
  | TTSAudioContextClosed
  | IntervalCleared nat

record NextEVIConfig =
  apiKey :: "string option"
  accessToken :: "string option"
  projectId :: "string option"
  configId :: string
  websocketUrl :: "string option"
  debug :: "bool option"

text \<open>
  The private fields of \<^verbatim>\<open>WebSocketManager\<close>. \<^verbatim>\<open>connect()\<close> settles its promise by
  wrapping \<^verbatim>\<open>events.onStateChange\<close>: the wrapper calls the handler it replaced and, on
  Connected or Error, resets \<^verbatim>\<open>isConnecting\<close> and puts the replaced handler back.
  \<open>pendingConnects\<close> counts the wrappers installed at the moment; \<^verbatim>\<open>connect()\<close> itself
  (URL construction, socket creation, the 10 s timeout) is not part of this development.
\<close>

record WebSocketManager =
  websocket :: "Socket option"
  config :: "NextEVIConfig option"
  connectionState :: ConnectionState
  connectionId :: "string option"
  reconnectAttempts :: nat
  maxReconnectAttempts :: nat
  reconnectDelay :: nat
  isConnecting :: bool
  pendingConnects :: nat

definition newWebSocketManager :: WebSocketManager where
  "newWebSocketManager = \<lparr> websocket = None, config = None, connectionState = Disconnected,
     connectionId = None, reconnectAttempts = 0, maxReconnectAttempts = 3, reconnectDelay = 1000,
     isConnecting = False, pendingConnects = 0 \<rparr>"

definition settlesConnect :: "ConnectionState \<Rightarrow> bool" where
  "settlesConnect s = (s = Connected \<or> s = Error)"

definition setConnectionState :: "WebSocketManager \<Rightarrow> ConnectionState \<Rightarrow> WebSocketManager \<times> Effect list" where
  "setConnectionState m s =
     (if connectionState m = s then (m, [])
      else
        (let m1 = m\<lparr> connectionState := s \<rparr> in
         (if settlesConnect s \<and> 0 < pendingConnects m1
          then m1\<lparr> isConnecting := False, pendingConnects := pendingConnects m1 - 1 \<rparr>
          else m1,
          [StateChange s])))"

definition handleOpen :: "WebSocketManager \<Rightarrow> WebSocketManager \<times> Effect list" where
  "handleOpen m = setConnectionState (m\<lparr> reconnectAttempts := 0 \<rparr>) Connected"

definition handleError :: "WebSocketManager \<Rightarrow> WebSocketManager \<times> Effect list" where
  "handleError m =
     (let (m1, out) = setConnectionState m Error in
      (m1, out @ [ErrorSignal \<lparr> errorMessage = ''WebSocket connection error'',
                                errorCode = WEBSOCKET_ERROR, errorDetails = SocketEvent \<rparr>]))"

definition maxReconnectExceeded :: NextEVIError where
  "maxReconnectExceeded = \<lparr> errorMessage = ''Maximum reconnection attempts exceeded'',
     errorCode = CONNECTION_FAILED, errorDetails = NoDetails \<rparr>"

definition attemptReconnection :: "WebSocketManager \<Rightarrow> WebSocketManager \<times> Effect list" where
  "attemptReconnection m =
     (if maxReconnectAttempts m \<le> reconnectAttempts m \<or> config m = None
      then (let (m1, out) = setConnectionState m Error in
            (m1, out @ [ErrorSignal maxReconnectExceeded]))
      else (let m1 = m\<lparr> reconnectAttempts := reconnectAttempts m + 1 \<rparr>;
                delay = reconnectDelay m1 * 2 ^ (reconnectAttempts m1 - 1)
            in (m1, [SetTimeout delay])))"

definition handleClose :: "WebSocketManager \<Rightarrow> nat \<Rightarrow> string \<Rightarrow> WebSocketManager \<times> Effect list" where
  "handleClose m code reason =
     (let m1 = m\<lparr> websocket := None \<rparr> in
      if code = 1000 then setConnectionState m1 Disconnected
      else if 4000 \<le> code then
        (let (m2, out) = setConnectionState m1 Error in
         (m2, out @ [ErrorSignal \<lparr> errorMessage = ''Connection closed: '' @ reason,
                                   errorCode = WEBSOCKET_ERROR,
                                   errorDetails = CloseInfo code reason \<rparr>]))
      else attemptReconnection m1)"

text \<open>\<^verbatim>\<open>WebSocketManager.disconnect()\<close>\<close>

definition wsDisconnect :: "WebSocketManager \<Rightarrow> WebSocketManager \<times> Effect list" where
  "wsDisconnect m =
     (let m1 = m\<lparr> isConnecting := False \<rparr>;
          (m2, out1) = (case websocket m1 of
                          Some ws \<Rightarrow> (m1\<lparr> websocket := None \<rparr>,
                                      [SocketClose ws 1000 ''User initiated disconnect''])
                        | None \<Rightarrow> (m1, []));
          m3 = m2\<lparr> connectionId := None, config := None, reconnectAttempts := 0 \<rparr>;
          (m4, out2) = setConnectionState m3 Disconnected
      in (m4, out1 @ out2))"

subsection \<open>Inbound frames\<close>

datatype json = JNull | JBool bool | JNum number | JStr string | JArr "json list"
  | JObj "(string \<times> json) list"

datatype Thrown = TypeError | SyntaxError

text \<open>
  A parsed message; an object lists each of its keys once. \<^verbatim>\<open>message.key\<close> for the keys
  read here (\<^verbatim>\<open>type\<close>, \<^verbatim>\<open>timestamp\<close>): a TypeError on null, undefined (\<open>None\<close>) on a
  primitive, an array or an object without the key.
\<close>

fun getProp :: "json \<Rightarrow> string \<Rightarrow> Thrown + json option" where
  "getProp JNull k = Inl TypeError"
| "getProp (JObj kvs) k = Inr (map_of kvs k)"
| "getProp v k = Inr None"

fun truthy :: "json option \<Rightarrow> bool" where
  "truthy None = False"
| "truthy (Some JNull) = False"
| "truthy (Some (JBool b)) = b"
| "truthy (Some (JNum n)) = (if n = 0 then False else True)"
| "truthy (Some (JStr s)) = (if s = [] then False else True)"
| "truthy (Some (JArr xs)) = True"
| "truthy (Some (JObj kvs)) = True"

datatype Frame = TextFrame string | BinaryFrame "nat list"

text \<open>\<^verbatim>\<open>JSON.parse(event.data)\<close> converts its argument to a string first.\<close>

fun dataString :: "Frame \<Rightarrow> string" where
  "dataString (TextFrame t) = t"
| "dataString (BinaryFrame b) = ''[object ArrayBuffer]''"

text \<open>The private methods that \<^verbatim>\<open>routeMessage\<close> hands a message to.\<close>

datatype Handler =
    HandleTranscriptionMessage
  | HandleTTSChunkMessage
  | HandleLLMChunkMessage
  | HandleEmotionMessage
  | HandleConnectionMetadata
  | HandleErrorMessage
  | HandleInterruptionMessage
  | HandleSystemMessage
  | HandleTurnCompleteMessage
  | HandleIdleWarningMessage

text \<open>
  \<^verbatim>\<open>routeMessage\<close> is the \<^verbatim>\<open>switch\<close> on \<^verbatim>\<open>message.type\<close>. What each private method and the
  callback behind it do to the rest of the system is the parameter \<open>handlers\<close>: it returns
  the state the method leaves behind, whether it returns or throws (the caller's
  \<^verbatim>\<open>catch\<close> swallows the exception). \<^verbatim>\<open>'status'\<close> and the default arm only log.
\<close>

definition routeMessage :: "(Handler \<Rightarrow> json \<Rightarrow> 's \<Rightarrow> 's) \<Rightarrow> json \<Rightarrow> 's \<Rightarrow> Thrown + 's" where
  "routeMessage handlers message s =
     (case getProp message ''type'' of
        Inl e \<Rightarrow> Inl e
      | Inr t \<Rightarrow> Inr
         (if t = Some (JStr ''transcription'') then handlers HandleTranscriptionMessage message s
          else if t = Some (JStr ''tts_chunk'') then handlers HandleTTSChunkMessage message s
          else if t = Some (JStr ''llm_response_chunk'') then handlers HandleLLMChunkMessage message s
          else if t = Some (JStr ''emotion_update'') then handlers HandleEmotionMessage message s
          else if t = Some (JStr ''connection_metadata'') then handlers HandleConnectionMetadata message s
          else if t = Some (JStr ''error'') then handlers HandleErrorMessage message s
          else if t = Some (JStr ''status'') then s
          else if t = Some (JStr ''tts_interruption'') then handlers HandleInterruptionMessage message s
          else if t = Some (JStr ''system_message'') then handlers HandleSystemMessage message s
          else if t = Some (JStr ''turn_complete'') then handlers HandleTurnCompleteMessage message s
          else if t = Some (JStr ''idle_warning'') then handlers HandleIdleWarningMessage message s
          else s))"

text \<open>
  \<^verbatim>\<open>handleMessage\<close>: parse and route inside one \<^verbatim>\<open>try\<close>; the \<^verbatim>\<open>catch\<close> only logs.
  \<open>jsonParse\<close> is the runtime's \<^verbatim>\<open>JSON.parse\<close>, \<open>None\<close> when it throws a SyntaxError.
\<close>

definition handleMessage ::
  "(string \<Rightarrow> json option) \<Rightarrow> (Handler \<Rightarrow> json \<Rightarrow> 's \<Rightarrow> 's) \<Rightarrow> Frame \<Rightarrow> 's \<Rightarrow> 's" where
  "handleMessage jsonParse handlers frame s =
     (case jsonParse (dataString frame) of
        None \<Rightarrow> s
      | Some message \<Rightarrow>
          (case routeMessage handlers message s of Inl e \<Rightarrow> s | Inr s' \<Rightarrow> s'))"

record InterruptionMessage =
  interruptionType :: string
  interruptionContent :: string
  interruptionTimestamp :: json

text \<open>
  The object \<^verbatim>\<open>handleInterruptionMessage\<close> passes to \<^verbatim>\<open>events.onInterruption\<close>;
  \<^verbatim>\<open>message.timestamp || Date.now()\<close>.
\<close>

definition handleInterruptionMessage :: "Env \<Rightarrow> json \<Rightarrow> Thrown + InterruptionMessage" where
  "handleInterruptionMessage env message =
     (case getProp message ''timestamp'' of
        Inl e \<Rightarrow> Inl e
      | Inr t \<Rightarrow> Inr \<lparr> interruptionType = ''tts_interruption'', interruptionContent = [],
                       interruptionTimestamp =
                         (if truthy t then the t else JNum (of_nat (dateNow env))) \<rparr>)"

section \<open>The audio bridge (utils/audio.ts)\<close>

text \<open>
  The playback worklet \<^verbatim>\<open>TTSPlaybackProcessor\<close>: a FIFO of sample buffers. The node's port
  delivers messages in order; the processor state is kept with the node that owns it.
\<close>

record TTSPlaybackProcessor =
  bufferQueue :: "int list list"
  readOffset :: nat
  samplesRemaining :: nat
  isPlaying :: bool

datatype PortMessage = Clear | Samples "int list"

fun portOnMessage :: "TTSPlaybackProcessor \<Rightarrow> PortMessage \<Rightarrow> TTSPlaybackProcessor" where
  "portOnMessage pr Clear =
     pr\<lparr> bufferQueue := [], readOffset := 0, samplesRemaining := 0, isPlaying := False \<rparr>"
| "portOnMessage pr (Samples d) =
     pr\<lparr> bufferQueue := bufferQueue pr @ [d], samplesRemaining := samplesRemaining pr + length d \<rparr>"

text \<open>
  An \<^verbatim>\<open>AudioContext\<close> is known by its state. \<^verbatim>\<open>close()\<close> marks the context closed at once
  and returns a promise that is fulfilled later; on a context that is already closed the
  promise is rejected with an InvalidStateError.
\<close>

datatype AudioContextState = Suspended | Running | Closed

datatype Rejection = InvalidStateError

datatype Outcome = Fulfilled | Rejected Rejection

definition closeContext :: "AudioContextState \<Rightarrow> AudioContextState \<times> Outcome" where
  "closeContext c = (if c = Closed then (Closed, Rejected InvalidStateError) else (Closed, Fulfilled))"

text \<open>
  \<^verbatim>\<open>AudioManager\<close>. The other browser objects the class only holds and releases are
  opaque: the field records whether it is null.
\<close>

record AudioManager =
  mediaStream :: "unit option"
  audioContext :: "AudioContextState option"
  ttsAudioContext :: "AudioContextState option"
  micWorkletNode :: "unit option"
  ttsWorkletNode :: "TTSPlaybackProcessor option"
  audioIsRecording :: bool
  audioIsTTSPlaying :: bool
  audioConfig :: AudioConfig
  audioLevelMonitor :: "nat option"
  lastAudioLevel :: number

definition clearTTSBuffer :: "AudioManager \<Rightarrow> AudioManager" where
  "clearTTSBuffer am =
     (case ttsWorkletNode am of
        Some pr \<Rightarrow> am\<lparr> ttsWorkletNode := Some (portOnMessage pr Clear) \<rparr>
      | None \<Rightarrow> am)"

definition stopAudioLevelMonitoring :: "AudioManager \<Rightarrow> AudioManager \<times> Effect list" where
  "stopAudioLevelMonitoring am =
     (case audioLevelMonitor am of
        Some n \<Rightarrow> (if n = 0 then (am, []) else (am\<lparr> audioLevelMonitor := None \<rparr>, [IntervalCleared n]))
      | None \<Rightarrow> (am, []))"

text \<open>
  \<^verbatim>\<open>AudioManager.cleanup()\<close> is an async function with two awaits, one for each context's
  \<^verbatim>\<open>close()\<close>. A call runs from one await to the next; between two of its runs other code
  runs and sees the fields as the call left them. A run ends suspended at an await (with
  the outcome of the promise it waits for), with the call returned, or with the call
  rejected.
\<close>

datatype AudioAwait = AwaitAudioContextClose | AwaitTTSAudioContextClose

datatype AudioRun = AudioAwaiting AudioAwait Outcome | AudioReturned | AudioThrew Rejection

text \<open>The end of the function: \<^verbatim>\<open>this.stopAudioLevelMonitoring()\<close>.\<close>

definition audioCleanupEnd :: "AudioManager \<Rightarrow> AudioManager \<times> Effect list \<times> AudioRun" where
  "audioCleanupEnd am =
     (let (am1, fx) = stopAudioLevelMonitoring am in (am1, fx, AudioReturned))"

text \<open>
  From \<^verbatim>\<open>if (this.ttsAudioContext)\<close> on: the context is closed, and the field is still set
  while the call waits.
\<close>

definition audioCleanupTTS :: "AudioManager \<Rightarrow> AudioManager \<times> Effect list \<times> AudioRun" where
  "audioCleanupTTS am =
     (case ttsAudioContext am of
        Some c \<Rightarrow>
          (let (c1, outcome) = closeContext c in
           (am\<lparr> ttsAudioContext := Some c1 \<rparr>,
            (if outcome = Fulfilled then [TTSAudioContextClosed] else []),
            AudioAwaiting AwaitTTSAudioContextClose outcome))
      | None \<Rightarrow> audioCleanupEnd am)"

text \<open>The call itself, up to its first await.\<close>

definition audioCleanupStart :: "AudioManager \<Rightarrow> AudioManager \<times> Effect list \<times> AudioRun" where
  "audioCleanupStart am =
     (let am1 = am\<lparr> audioIsRecording := False, audioIsTTSPlaying := False \<rparr>;
          (am2, fx2) = (case micWorkletNode am1 of
                          Some n \<Rightarrow> (am1\<lparr> micWorkletNode := None \<rparr>, [MicWorkletDisconnected])
                        | None \<Rightarrow> (am1, []));
          (am3, fx3) = (case ttsWorkletNode am2 of
                          Some n \<Rightarrow> (am2\<lparr> ttsWorkletNode := None \<rparr>, [TTSWorkletDisconnected])
                        | None \<Rightarrow> (am2, []));
          (am4, fx4) = (case mediaStream am3 of
                          Some n \<Rightarrow> (am3\<lparr> mediaStream := None \<rparr>, [MediaTracksStopped])
                        | None \<Rightarrow> (am3, []))
      in case audioContext am4 of
           Some c \<Rightarrow>
             (let (c1, outcome) = closeContext c in
              (am4\<lparr> audioContext := Some c1 \<rparr>,
               fx2 @ fx3 @ fx4 @ (if outcome = Fulfilled then [AudioContextClosed] else []),
               AudioAwaiting AwaitAudioContextClose outcome))
         | None \<Rightarrow>
             (let (am5, fx5, run) = audioCleanupTTS am4 in (am5, fx2 @ fx3 @ fx4 @ fx5, run)))"

text \<open>
  The call resumed at an await: a rejected promise makes the \<^verbatim>\<open>await\<close> throw, and nothing
  catches it; a fulfilled one lets the call null the field and go on.
\<close>

definition audioCleanupResume ::
  "AudioAwait \<Rightarrow> Outcome \<Rightarrow> AudioManager \<Rightarrow> AudioManager \<times> Effect list \<times> AudioRun" where
  "audioCleanupResume w outcome am =
     (case outcome of
        Rejected e \<Rightarrow> (am, [], AudioThrew e)
      | Fulfilled \<Rightarrow>
          (case w of
             AwaitAudioContextClose \<Rightarrow> audioCleanupTTS (am\<lparr> audioContext := None \<rparr>)
           | AwaitTTSAudioContextClose \<Rightarrow> audioCleanupEnd (am\<lparr> ttsAudioContext := None \<rparr>)))"

section \<open>The provider: refs, dispatch and the event handlers (components/VoiceProvider.tsx)\<close>

record Provider =
  state :: VoiceState
  wsManagerRef :: "WebSocketManager option"
  audioManagerRef :: "AudioManager option"
  currentStreamingMessageId :: "string option"

definition dispatch :: "Env \<Rightarrow> Provider \<Rightarrow> VoiceAction \<Rightarrow> Provider" where
  "dispatch env p a = p\<lparr> state := voiceReducer env (state p) a \<rparr>"

definition generateMessageId :: "Env \<Rightarrow> string" where
  "generateMessageId env = ''msg_'' @ showNat (dateNow env) @ ''_'' @ randomSuffix env"

definition addMessage :: "Env \<Rightarrow> Provider \<Rightarrow> MessageType \<Rightarrow> string \<Rightarrow> Metadata option \<Rightarrow> Provider" where
  "addMessage env p ty c md =
     dispatch env p (ADD_MESSAGE \<lparr> msgId = generateMessageId env, msgType = ty, content = c,
                                   timestamp = newDate env, metadata = md \<rparr>)"

definition onStateChange :: "Env \<Rightarrow> Provider \<Rightarrow> ConnectionState \<Rightarrow> Provider" where
  "onStateChange env p cs =
     dispatch env (dispatch env p (SET_CONNECTION_STATE cs)) (SET_IDLE_WARNING False None None)"

definition onTranscription :: "Env \<Rightarrow> Provider \<Rightarrow> TranscriptionResult \<Rightarrow> Provider" where
  "onTranscription env p result =
     (let spoken = (if trim (transcript result) = [] then False else True);
          p1 = (if spoken then dispatch env p (SET_IDLE_WARNING False None None) else p)
      in if resultIsFinal result \<and> spoken
         then dispatch env
                (addMessage env p1 User (transcript result)
                   (Some (emptyMetadata\<lparr> confidence := Some (resultConfidence result),
                                           isFinal := Some True,
                                           isUtteranceEnd := resultIsUtteranceEnd result,
                                           turnComplete := resultTurnComplete result,
                                           words := resultWords result \<rparr>)))
                (SET_WAITING_FOR_RESPONSE True)
         else if spoken
         then dispatch env p1 (UPDATE_STREAMING_MESSAGE (transcript result) User)
         else p1)"

text \<open>\<^verbatim>\<open>currentStreamingMessageId.current\<close> as a condition: a non-empty string.\<close>

definition refSet :: "string option \<Rightarrow> bool" where
  "refSet r = (case r of None \<Rightarrow> False | Some i \<Rightarrow> (if i = [] then False else True))"

definition onLLMChunk :: "Env \<Rightarrow> Provider \<Rightarrow> LLMResponseChunk \<Rightarrow> Provider" where
  "onLLMChunk env p chunk =
     (if chunkIsFinal chunk
      then
        (let p1 = (if refSet (currentStreamingMessageId p)
                   then (dispatch env p
                           (FINALIZE_STREAMING_MESSAGE (the (currentStreamingMessageId p))
                              (chunkContent chunk)))
                        \<lparr> currentStreamingMessageId := None \<rparr>
                   else addMessage env p Assistant (chunkContent chunk)
                          (Some (emptyMetadata\<lparr> generationId := chunkGenerationId chunk,
                                                  isFinal := Some True \<rparr>)))
         in dispatch env p1 (SET_WAITING_FOR_RESPONSE False))
      else
        (let p1 = (if refSet (currentStreamingMessageId p) then p
                   else p\<lparr> currentStreamingMessageId := Some (generateMessageId env) \<rparr>)
         in dispatch env p1 (UPDATE_STREAMING_MESSAGE (chunkContent chunk) Assistant)))"

definition onEmotion :: "Env \<Rightarrow> Provider \<Rightarrow> EmotionData list \<Rightarrow> Provider" where
  "onEmotion env p es = dispatch env p (ADD_EMOTIONS_TO_LATEST_USER_MESSAGE es)"

definition onError :: "Env \<Rightarrow> Provider \<Rightarrow> NextEVIError \<Rightarrow> Provider" where
  "onError env p e =
     addMessage env (dispatch env p (SET_ERROR (ErrorText (errorMessage e))))
       ErrorMessage (''Error: '' @ errorMessage e) None"

definition onInterruption :: "Env \<Rightarrow> Provider \<Rightarrow> InterruptionMessage \<Rightarrow> Provider" where
  "onInterruption env p interruption = dispatch env p (SET_TTS_PLAYING False)"

text \<open>
  \<^verbatim>\<open>onTurnComplete\<close> reads \<^verbatim>\<open>state.messages\<close> from its closure: \<open>seen\<close> is the state of the
  render that created the handler, \<open>p\<close> the provider the dispatch acts on.
\<close>

definition onTurnComplete :: "Env \<Rightarrow> VoiceState \<Rightarrow> Provider \<Rightarrow> TurnCompleteMessage \<Rightarrow> Provider" where
  "onTurnComplete env seen p turnMessage =
     (if turnTranscript turnMessage = [] then p
      else if length (messages seen) = 0 then p
      else
        (case find (\<lambda>msg. msgType msg = User) (rev (messages seen)) of
           None \<Rightarrow> p
         | Some lastUserMessage \<Rightarrow>
             if content lastUserMessage = trim (turnTranscript turnMessage)
             then addMessage env p User (content lastUserMessage)
                    (Some ((spread (metadata lastUserMessage))
                             \<lparr> turnComplete := Some True,
                               turnResult := Some (turnMessageResult turnMessage) \<rparr>))
             else p))"

text \<open>What the provider's callbacks do with the signals of its transport channel.\<close>

fun wsSignal :: "Env \<Rightarrow> Effect \<Rightarrow> Provider \<Rightarrow> Provider" where
  "wsSignal env (StateChange cs) p = onStateChange env p cs"
| "wsSignal env (ErrorSignal e) p = onError env p e"
| "wsSignal env fx p = p"

text \<open>
  \<^verbatim>\<open>cleanup\<close> is an async function that awaits \<^verbatim>\<open>AudioManager.cleanup()\<close> and
  \<^verbatim>\<open>WebSocketManager.disconnect()\<close> and nulls each ref after its await. While it waits for
  the audio manager, that call is either suspended itself or has settled (returned, or
  rejected with a reason); \<^verbatim>\<open>WebSocketManager.disconnect()\<close> has no await of its own and
  has returned when \<^verbatim>\<open>cleanup\<close> is suspended on it.
\<close>

datatype CleanupAwait =
    AudioCleanupPending AudioAwait Outcome
  | AudioCleanupSettled "Rejection option"
  | WsDisconnectSettled

datatype CleanupRun = CleanupAwaiting CleanupAwait | CleanupReturned | CleanupThrew Rejection

fun awaitingAudio :: "AudioRun \<Rightarrow> CleanupRun" where
  "awaitingAudio (AudioAwaiting w outcome) = CleanupAwaiting (AudioCleanupPending w outcome)"
| "awaitingAudio AudioReturned = CleanupAwaiting (AudioCleanupSettled None)"
| "awaitingAudio (AudioThrew e) = CleanupAwaiting (AudioCleanupSettled (Some e))"

text \<open>The end of \<^verbatim>\<open>cleanup\<close>: the three dispatches and the streaming id.\<close>

definition cleanupEnd :: "Env \<Rightarrow> Provider \<Rightarrow> Provider \<times> Effect list \<times> CleanupRun" where
  "cleanupEnd env p =
     (let p3 = dispatch env p (SET_RECORDING False);
          p4 = dispatch env p3 (SET_TTS_PLAYING False);
          p5 = dispatch env p4 (SET_WAITING_FOR_RESPONSE False)
      in (p5\<lparr> currentStreamingMessageId := None \<rparr>, [], CleanupReturned))"

text \<open>
  From \<^verbatim>\<open>if (wsManagerRef.current)\<close> on: the manager disconnects, its signals reach the
  provider's callbacks, and the ref is still set while \<^verbatim>\<open>cleanup\<close> waits.
\<close>

definition cleanupWs :: "Env \<Rightarrow> Provider \<Rightarrow> Provider \<times> Effect list \<times> CleanupRun" where
  "cleanupWs env p =
     (case wsManagerRef p of
        Some ws \<Rightarrow>
          ((fold (wsSignal env) (snd (wsDisconnect ws)) p)
             \<lparr> wsManagerRef := Some (fst (wsDisconnect ws)) \<rparr>,
           snd (wsDisconnect ws),
           CleanupAwaiting WsDisconnectSettled)
      | None \<Rightarrow> cleanupEnd env p)"

text \<open>The call itself, up to its first await.\<close>

definition cleanupStart :: "Env \<Rightarrow> Provider \<Rightarrow> Provider \<times> Effect list \<times> CleanupRun" where
  "cleanupStart env p =
     (case audioManagerRef p of
        Some am \<Rightarrow>
          (let (am1, fx, run) = audioCleanupStart am in
           (p\<lparr> audioManagerRef := Some am1 \<rparr>, fx, awaitingAudio run))
      | None \<Rightarrow> cleanupWs env p)"

text \<open>
  The call resumed at an await. While \<^verbatim>\<open>AudioManager.cleanup()\<close> is pending, the resumed
  code is that call's, on the manager the ref holds. (The ref is nulled only by a call
  that got past this await, and that takes both contexts gone; so a call that waits for a
  context it closed still finds the manager in the ref, however the calls interleave:
  lemma \<^verbatim>\<open>pending_call_finds_manager\<close> below. Without a manager in the ref the pending
  call counts as settled; a rejected one is settled with or without it.)
\<close>

definition cleanupResume :: "Env \<Rightarrow> CleanupAwait \<Rightarrow> Provider \<Rightarrow> Provider \<times> Effect list \<times> CleanupRun" where
  "cleanupResume env w p =
     (case w of
        AudioCleanupPending aw outcome \<Rightarrow>
          (case audioManagerRef p of
             Some am \<Rightarrow>
               (let (am1, fx, run) = audioCleanupResume aw outcome am in
                (p\<lparr> audioManagerRef := Some am1 \<rparr>, fx, awaitingAudio run))
           | None \<Rightarrow>
               (p, [], CleanupAwaiting (AudioCleanupSettled
                  (case outcome of Rejected e \<Rightarrow> Some e | Fulfilled \<Rightarrow> None))))
      | AudioCleanupSettled (Some e) \<Rightarrow> (p, [], CleanupThrew e)
      | AudioCleanupSettled None \<Rightarrow> cleanupWs env (p\<lparr> audioManagerRef := None \<rparr>)
      | WsDisconnectSettled \<Rightarrow> cleanupEnd env (p\<lparr> wsManagerRef := None \<rparr>))"

text \<open>
  \<^verbatim>\<open>disconnect\<close> awaits \<^verbatim>\<open>cleanup()\<close> and then dispatches \<^verbatim>\<open>RESET_STATE\<close>; when
  \<^verbatim>\<open>cleanup()\<close> rejects, so does \<^verbatim>\<open>disconnect()\<close>, without the dispatch.
\<close>

datatype DisconnectAwait = CleanupPending CleanupAwait | CleanupSettled "Rejection option"

datatype DisconnectRun = DisconnectAwaiting DisconnectAwait | DisconnectReturned
  | DisconnectThrew Rejection

fun awaitingCleanup :: "CleanupRun \<Rightarrow> DisconnectRun" where
  "awaitingCleanup (CleanupAwaiting w) = DisconnectAwaiting (CleanupPending w)"
| "awaitingCleanup CleanupReturned = DisconnectAwaiting (CleanupSettled None)"
| "awaitingCleanup (CleanupThrew e) = DisconnectAwaiting (CleanupSettled (Some e))"

definition disconnectStart :: "Env \<Rightarrow> Provider \<Rightarrow> Provider \<times> Effect list \<times> DisconnectRun" where
  "disconnectStart env p =
     (let (p1, fx, run) = cleanupStart env p in (p1, fx, awaitingCleanup run))"

definition disconnectResume ::
  "Env \<Rightarrow> DisconnectAwait \<Rightarrow> Provider \<Rightarrow> Provider \<times> Effect list \<times> DisconnectRun" where
  "disconnectResume env w p =
     (case w of
        CleanupPending cw \<Rightarrow>
          (let (p1, fx, run) = cleanupResume env cw p in (p1, fx, awaitingCleanup run))
      | CleanupSettled (Some e) \<Rightarrow> (p, [], DisconnectThrew e)
      | CleanupSettled None \<Rightarrow> (dispatch env p RESET_STATE, [], DisconnectReturned))"

text \<open>
  A \<^verbatim>\<open>disconnect()\<close> call with nothing else running until it settles: every resumption
  follows the one before. A call has at most five awaits on its way (the two context
  closes, the audio manager's cleanup, the transport's disconnect, the provider's cleanup).
\<close>

definition disconnectStep ::
  "Env \<Rightarrow> Provider \<times> Effect list \<times> DisconnectRun \<Rightarrow> Provider \<times> Effect list \<times> DisconnectRun" where
  "disconnectStep env c =
     (case c of
        (p, fx, DisconnectAwaiting w) \<Rightarrow>
          (let (p1, fx1, run) = disconnectResume env w p in (p1, fx @ fx1, run))
      | (p, fx, run) \<Rightarrow> (p, fx, run))"

definition disconnectSettle ::
  "Env \<Rightarrow> Provider \<times> Effect list \<times> DisconnectRun \<Rightarrow> Provider \<times> Effect list \<times> DisconnectRun" where
  "disconnectSettle env c =
     disconnectStep env (disconnectStep env (disconnectStep env (disconnectStep env
       (disconnectStep env c))))"

definition disconnect :: "Env \<Rightarrow> Provider \<Rightarrow> Provider \<times> Effect list \<times> DisconnectRun" where
  "disconnect env p = disconnectSettle env (disconnectStart env p)"

section \<open>Scenarios\<close>

text \<open>The provider at mount: the initial reducer state and all refs null.\<close>

definition freshProvider :: Provider where
  "freshProvider = \<lparr> state = initialState, wsManagerRef = None, audioManagerRef = None,
     currentStreamingMessageId = None \<rparr>"

definition clockAt :: "nat \<Rightarrow> string \<Rightarrow> Env" where
  "clockAt t r = \<lparr> dateNow = t, newDate = t, randomSuffix = r \<rparr>"

definition joy :: "EmotionData list" where
  "joy = [\<lparr> emotion = ''joy'', percentage = 80 \<rparr>]"

text \<open>
  A transcription result and an LLM chunk as the router builds them from a frame that
  carries only the text, the final flag and a confidence of 0.9.
\<close>

definition transcription :: "string \<Rightarrow> bool \<Rightarrow> TranscriptionResult" where
  "transcription t final = \<lparr> transcript = t, resultConfidence = 9 / 10, resultIsFinal = final,
     isInterim = (\<not> final), isSpeechFinal = None, resultIsUtteranceEnd = Some False,
     resultWords = None, resultTurnComplete = None,
     resultMetadata = Some \<lparr> sessionId = None, eventType = Some ''normal'',
                              transcriptionProcessingTime = None \<rparr> \<rparr>"

definition llmChunk :: "string \<Rightarrow> bool \<Rightarrow> LLMResponseChunk" where
  "llmChunk c final = \<lparr> chunkContent = c, chunkIsFinal = final, chunkGenerationId = None,
     chunkIndex = None \<rparr>"

definition turnDone :: "string \<Rightarrow> TurnCompleteMessage" where
  "turnDone t = \<lparr> turnMessageResult = \<lparr> isComplete = True, turnConfidence = 9 / 10,
       reasons = [], processingTime = None \<rparr>, turnTranscript = t, turnTimestamp = None \<rparr>"

text \<open>
  An interim transcription the handler acts on: not final, and text left after trimming.
  A run of transcription events, each with the environment of its handler run. A user
  message that is streaming.
\<close>

definition interimEvent :: "TranscriptionResult \<Rightarrow> bool" where
  "interimEvent r = (if resultIsFinal r then False else if trim (transcript r) = [] then False else True)"

fun feed :: "Provider \<Rightarrow> (Env \<times> TranscriptionResult) list \<Rightarrow> Provider" where
  "feed p [] = p"
| "feed p ((env, r) # rest) = feed (onTranscription env p r) rest"

definition streamingUser :: "VoiceMessage \<Rightarrow> bool" where
  "streamingUser m = (msgType m = User \<and> streamingFlag m)"

text \<open>An audio manager that is capturing and has three synthesized samples queued.\<close>

definition playingAudio :: AudioManager where
  "playingAudio = \<lparr> mediaStream = Some (), audioContext = Some Running, ttsAudioContext = Some Running,
     micWorkletNode = Some (),
     ttsWorkletNode = Some \<lparr> bufferQueue = [[100, 200, 300]], readOffset = 0,
                              samplesRemaining = 3, isPlaying = True \<rparr>,
     audioIsRecording = True, audioIsTTSPlaying = True,
     audioConfig = \<lparr> sampleRate = Some 24000, channels = Some 1, encoding = Some ''linear16'',
                     echoCancellation = Some True, noiseSuppression = Some True,
                     autoGainControl = Some False \<rparr>,
     audioLevelMonitor = Some 7, lastAudioLevel = 0 \<rparr>"

text \<open>A manager with an open connection, as \<^verbatim>\<open>connect()\<close> and \<^verbatim>\<open>handleOpen\<close> leave it.\<close>

definition liveManager :: WebSocketManager where
  "liveManager = newWebSocketManager
     \<lparr> websocket := Some (WebSocket ''wss://api.nextevi.com/ws/voice/voice_10_abc?config_id=c1''),
       config := Some \<lparr> apiKey = Some ''oak_test'', accessToken = None, projectId = Some ''p1'',
                         configId = ''c1'', websocketUrl = None, debug = None \<rparr>,
       connectionState := Connected,
       connectionId := Some ''voice_10_abc'' \<rparr>"

text \<open>A provider in a running session: recording, the socket open, both contexts running.\<close>

definition connectedProvider :: Provider where
  "connectedProvider = \<lparr> state = initialState\<lparr> readyState := Connected, isRecording := True \<rparr>,
     wsManagerRef = Some liveManager, audioManagerRef = Some playingAudio,
     currentStreamingMessageId = None \<rparr>"

text \<open>
  How many awaits a suspended \<^verbatim>\<open>disconnect()\<close> call has before it at most.
\<close>

fun awaitsLeft :: "DisconnectRun \<Rightarrow> nat" where
  "awaitsLeft (DisconnectAwaiting (CleanupPending (AudioCleanupPending AwaitAudioContextClose outcome))) = 5"
| "awaitsLeft (DisconnectAwaiting (CleanupPending (AudioCleanupPending AwaitTTSAudioContextClose outcome))) = 4"
| "awaitsLeft (DisconnectAwaiting (CleanupPending (AudioCleanupSettled r))) = 3"
| "awaitsLeft (DisconnectAwaiting (CleanupPending WsDisconnectSettled)) = 2"
| "awaitsLeft (DisconnectAwaiting (CleanupSettled r)) = 1"
| "awaitsLeft DisconnectReturned = 0"
| "awaitsLeft (DisconnectThrew e) = 0"

text \<open>
  What holds of the provider at the later stages of a \<^verbatim>\<open>disconnect()\<close> call: the refs are
  null once their awaits are behind, and a call that returned leaves the provider as at
  mount.
\<close>

fun teardownInvariant :: "Provider \<Rightarrow> DisconnectRun \<Rightarrow> bool" where
  "teardownInvariant p DisconnectReturned = (p = freshProvider)"
| "teardownInvariant p (DisconnectAwaiting (CleanupSettled None)) =
     (audioManagerRef p = None \<and> wsManagerRef p = None \<and> currentStreamingMessageId p = None)"
| "teardownInvariant p (DisconnectAwaiting (CleanupPending WsDisconnectSettled)) =
     (audioManagerRef p = None)"
| "teardownInvariant p run = True"

text \<open>
  A provider on which no cleanup is under way: its audio manager, if any, holds no context
  that is already closed. A call on course: no promise it waits for is rejected, and the
  TTS context it has yet to close is not closed already.
\<close>

definition quiet :: "Provider \<Rightarrow> bool" where
  "quiet p = (case audioManagerRef p of
      None \<Rightarrow> True
    | Some am \<Rightarrow> (if audioContext am = Some Closed then False
                 else if ttsAudioContext am = Some Closed then False else True))"

definition ttsOpen :: "Provider \<Rightarrow> bool" where
  "ttsOpen p = (case audioManagerRef p of
      None \<Rightarrow> True
    | Some am \<Rightarrow> (if ttsAudioContext am = Some Closed then False else True))"

fun onCourse :: "Provider \<Rightarrow> DisconnectRun \<Rightarrow> bool" where
  "onCourse p (DisconnectAwaiting (CleanupPending (AudioCleanupPending AwaitAudioContextClose outcome))) =
     (outcome = Fulfilled \<and> ttsOpen p)"
| "onCourse p (DisconnectAwaiting (CleanupPending (AudioCleanupPending AwaitTTSAudioContextClose outcome))) =
     (outcome = Fulfilled)"
| "onCourse p (DisconnectAwaiting (CleanupPending (AudioCleanupSettled r))) = (r = None)"
| "onCourse p (DisconnectAwaiting (CleanupPending WsDisconnectSettled)) = True"
| "onCourse p (DisconnectAwaiting (CleanupSettled r)) = (r = None)"
| "onCourse p DisconnectReturned = True"
| "onCourse p (DisconnectThrew e) = False"

text \<open>
  Several \<^verbatim>\<open>disconnect()\<close> calls in flight on one provider. Each call is at an await or has
  settled; a step starts a new call, resumes one of the waiting calls, or is other code
  that leaves the audio manager ref alone.
\<close>

inductive interleaving :: "Env \<Rightarrow> Provider \<times> DisconnectRun list \<Rightarrow> bool" for env where
  idle: "interleaving env (p, [])"
| call: "interleaving env (p, calls) \<Longrightarrow>
         interleaving env (fst (disconnectStart env p), calls @ [snd (snd (disconnectStart env p))])"
| resume: "interleaving env (p, xs @ DisconnectAwaiting w # ys) \<Longrightarrow>
           interleaving env (fst (disconnectResume env w p), xs @ snd (snd (disconnectResume env w p)) # ys)"
| other: "interleaving env (p, calls) \<Longrightarrow> audioManagerRef p' = audioManagerRef p \<Longrightarrow>
          interleaving env (p', calls)"

text \<open>
  The contexts the audio manager in the ref holds, and the outcome of closing one. Among the
  calls in flight: those that wait for a context they closed themselves (the promise is
  fulfilled), and those whose \<^verbatim>\<open>AudioManager.cleanup()\<close> has returned and that are about to null
  the ref.
\<close>

definition heldContexts :: "Provider \<Rightarrow> (AudioContextState option \<times> AudioContextState option) option" where
  "heldContexts p = map_option (\<lambda>am. (audioContext am, ttsAudioContext am)) (audioManagerRef p)"

definition closeOutcome :: "AudioContextState \<Rightarrow> Outcome" where
  "closeOutcome c = snd (closeContext c)"

definition pendingOn :: "AudioAwait \<Rightarrow> DisconnectRun" where
  "pendingOn aw = DisconnectAwaiting (CleanupPending (AudioCleanupPending aw Fulfilled))"

definition pastAudio :: DisconnectRun where
  "pastAudio = DisconnectAwaiting (CleanupPending (AudioCleanupSettled None))"

definition tally :: "DisconnectRun list \<Rightarrow> nat \<times> nat \<times> nat" where
  "tally calls = (count_list calls (pendingOn AwaitAudioContextClose),
                  count_list calls (pendingOn AwaitTTSAudioContextClose),
                  count_list calls pastAudio)"

text \<open>
  How many such calls the contexts allow: a context that is set and closed has at most one
  call waiting for it, an open one none; the ref is nulled only with both contexts gone.
\<close>

fun allowed :: "(AudioContextState option \<times> AudioContextState option) option \<Rightarrow> nat \<times> nat \<times> nat \<Rightarrow> bool" where
  "allowed None (a1, a2, past) = (a1 = 0 \<and> a2 = 0)"
| "allowed (Some (Some c, t)) (a1, a2, past) = (a2 = 0 \<and> past = 0 \<and> a1 \<le> (if c = Closed then 1 else 0))"
| "allowed (Some (None, Some c)) (a1, a2, past) = (a1 = 0 \<and> past = 0 \<and> a2 \<le> (if c = Closed then 1 else 0))"
| "allowed (Some (None, None)) (a1, a2, past) = (a1 = 0 \<and> a2 = 0)"

definition contextsInvariant :: "Provider \<times> DisconnectRun list \<Rightarrow> bool" where
  "contextsInvariant c = allowed (heldContexts (fst c)) (tally (snd c))"

text \<open>Reading the signals a run produced.\<close>

fun isErrorSignal :: "Effect \<Rightarrow> bool" where
  "isErrorSignal (ErrorSignal e) = True"
| "isErrorSignal fx = False"

fun isTimer :: "Effect \<Rightarrow> bool" where
  "isTimer (SetTimeout d) = True"
| "isTimer fx = False"

text \<open>Socket closures one after the other, each given by its close code and reason.\<close>

fun closures :: "WebSocketManager \<Rightarrow> (nat \<times> string) list \<Rightarrow> WebSocketManager \<times> Effect list" where
  "closures m [] = (m, [])"
| "closures m ((code, reason) # rest) =
     (let (m1, out1) = handleClose m code reason;
          (m2, out2) = closures m1 rest
      in (m2, out1 @ out2))"

text \<open>
  The case labels of the \<^verbatim>\<open>switch\<close> in \<^verbatim>\<open>routeMessage\<close>, and the discriminator of a
  message: its \<^verbatim>\<open>type\<close> when that is a string.
\<close>

definition recognizedTypes :: "string list" where
  "recognizedTypes = [''transcription'', ''tts_chunk'', ''llm_response_chunk'', ''emotion_update'',
     ''connection_metadata'', ''error'', ''status'', ''tts_interruption'', ''system_message'',
     ''turn_complete'', ''idle_warning'']"

definition discriminator :: "json \<Rightarrow> string option" where
  "discriminator message =
     (case getProp message ''type'' of Inr (Some (JStr t)) \<Rightarrow> Some t | _ \<Rightarrow> None)"

text \<open>
  The frame \<^verbatim>\<open>{"type":"pong"}\<close>, and \<^verbatim>\<open>JSON.parse\<close> restricted to the frames of the
  scenario: it parses that frame and throws on every other text.
\<close>

definition pongFrame :: string where
  "pongFrame = ''{'' @ [CHR 0x22] @ ''type'' @ [CHR 0x22] @ '':'' @ [CHR 0x22] @ ''pong''
     @ [CHR 0x22] @ ''}''"

definition parsePong :: "string \<Rightarrow> json option" where
  "parsePong t = (if t = pongFrame then Some (JObj [(''type'', JStr ''pong'')]) else None)"

text \<open>Handlers that would all leave a trace in the log.\<close>

definition tracingHandlers :: "Handler \<Rightarrow> json \<Rightarrow> Provider \<Rightarrow> Provider" where
  "tracingHandlers h message p = addMessage (clockAt 10 ''abc'') p System ''handled'' None"

section \<open>Properties of the reducer and the handlers\<close>

lemma lastUserMessageIndex_snoc:
  "lastUserMessageIndex (xs @ [x]) =
     (if userWithoutEmotions x then Some (length xs) else lastUserMessageIndex xs)"
  by (simp add: lastUserMessageIndex_def)

lemma lastUserMessageIndex_Some:
  "lastUserMessageIndex xs = Some i \<Longrightarrow>
     i < length xs \<and> userWithoutEmotions (xs ! i) \<and>
     (\<forall>j. i < j \<and> j < length xs \<longrightarrow> \<not> userWithoutEmotions (xs ! j))"
proof (induction xs rule: rev_induct)
  case Nil
  then show ?case by (simp add: lastUserMessageIndex_def)
next
  case (snoc x xs)
  show ?case
  proof (cases "userWithoutEmotions x")
    case True
    with snoc.prems have "i = length xs" by (simp add: lastUserMessageIndex_snoc)
    with True show ?thesis by (auto simp: less_Suc_eq)
  next
    case False
    with snoc.prems have "lastUserMessageIndex xs = Some i" by (simp add: lastUserMessageIndex_snoc)
    from snoc.IH [OF this] False show ?thesis
      by (auto simp: nth_append less_Suc_eq)
  qed
qed

lemma lastUserMessageIndex_None:
  "lastUserMessageIndex xs = None \<longleftrightarrow> (\<forall>m \<in> set xs. \<not> userWithoutEmotions m)"
  by (induction xs rule: rev_induct) (auto simp: lastUserMessageIndex_snoc lastUserMessageIndex_def)

text \<open>
  C7. If some user message in the log carries no emotion metadata, an emotion batch is
  attached to the most recent such message (its other metadata, every other message and
  the rest of the state stay as they are). If every user message already carries emotions,
  or there is no user message, the event changes nothing.
\<close>

theorem emotions_attach_to_latest_unattached_user_message:
  "((\<exists>m \<in> set (messages (state p)). userWithoutEmotions m) \<longrightarrow>
      (\<exists>i < length (messages (state p)).
         userWithoutEmotions (messages (state p) ! i) \<and>
         (\<forall>j. i < j \<and> j < length (messages (state p)) \<longrightarrow>
              \<not> userWithoutEmotions (messages (state p) ! j)) \<and>
         onEmotion env p es =
           p\<lparr> state := (state p)\<lparr> messages :=
                 (messages (state p))[i := (messages (state p) ! i)
                    \<lparr> metadata := Some ((spread (metadata (messages (state p) ! i)))
                                          \<lparr> emotions := Some es \<rparr>) \<rparr>] \<rparr> \<rparr>))
   \<and> ((\<forall>m \<in> set (messages (state p)). \<not> userWithoutEmotions m) \<longrightarrow> onEmotion env p es = p)"
proof (intro conjI impI)
  assume "\<exists>m \<in> set (messages (state p)). userWithoutEmotions m"
  then have "lastUserMessageIndex (messages (state p)) \<noteq> None"
    by (simp add: lastUserMessageIndex_None)
  then obtain i where i: "lastUserMessageIndex (messages (state p)) = Some i" by auto
  from lastUserMessageIndex_Some [OF i] i
  show "\<exists>i < length (messages (state p)).
         userWithoutEmotions (messages (state p) ! i) \<and>
         (\<forall>j. i < j \<and> j < length (messages (state p)) \<longrightarrow>
              \<not> userWithoutEmotions (messages (state p) ! j)) \<and>
         onEmotion env p es =
           p\<lparr> state := (state p)\<lparr> messages :=
                 (messages (state p))[i := (messages (state p) ! i)
                    \<lparr> metadata := Some ((spread (metadata (messages (state p) ! i)))
                                          \<lparr> emotions := Some es \<rparr>) \<rparr>] \<rparr> \<rparr>"
    by (intro exI [of _ i]) (simp add: onEmotion_def dispatch_def Let_def)
next
  assume "\<forall>m \<in> set (messages (state p)). \<not> userWithoutEmotions m"
  then have "lastUserMessageIndex (messages (state p)) = None"
    by (simp add: lastUserMessageIndex_None)
  then show "onEmotion env p es = p"
    by (simp add: onEmotion_def dispatch_def)
qed

text \<open>
  The theorem at the spec's scenario: a user message without emotions receives the batch;
  a second batch, with no new user message, changes nothing.
\<close>

theorem emotions_attach_witness:
  "(\<exists>m \<in> set (messages (state (addMessage (clockAt 10 ''abc'') freshProvider User ''hello'' None))).
      userWithoutEmotions m)
   \<and> map (\<lambda>m. (content m, map_option emotions (metadata m)))
       (messages (state (onEmotion (clockAt 20 ''def'')
          (addMessage (clockAt 10 ''abc'') freshProvider User ''hello'' None) joy)))
     = [(''hello'', Some (Some joy))]
   \<and> \<not> (\<exists>m \<in> set (messages (state (onEmotion (clockAt 20 ''def'')
          (addMessage (clockAt 10 ''abc'') freshProvider User ''hello'' None) joy))).
        userWithoutEmotions m)
   \<and> onEmotion (clockAt 30 ''ghi'') (onEmotion (clockAt 20 ''def'')
          (addMessage (clockAt 10 ''abc'') freshProvider User ''hello'' None) joy) joy
     = onEmotion (clockAt 20 ''def'')
          (addMessage (clockAt 10 ''abc'') freshProvider User ''hello'' None) joy"
proof -
  let ?p1 = "addMessage (clockAt 10 ''abc'') freshProvider User ''hello'' None"
  let ?p2 = "onEmotion (clockAt 20 ''def'') ?p1 joy"
  have log1: "messages (state ?p1) =
      [\<lparr> msgId = generateMessageId (clockAt 10 ''abc''), msgType = User, content = ''hello'',
         timestamp = 10, metadata = None \<rparr>]"
    by (simp add: addMessage_def dispatch_def freshProvider_def initialState_def clockAt_def)
  have h1: "\<exists>m \<in> set (messages (state ?p1)). userWithoutEmotions m"
    by (simp add: log1 userWithoutEmotions_def)
  from emotions_attach_to_latest_unattached_user_message [of ?p1 "clockAt 20 ''def''" joy] h1
  obtain i where i: "i < length (messages (state ?p1))"
    and upd: "?p2 = ?p1\<lparr> state := (state ?p1)\<lparr> messages :=
                 (messages (state ?p1))[i := (messages (state ?p1) ! i)
                    \<lparr> metadata := Some ((spread (metadata (messages (state ?p1) ! i)))
                                          \<lparr> emotions := Some joy \<rparr>) \<rparr>] \<rparr> \<rparr>"
    by blast
  from i have i0: "i = 0" by (simp add: log1)
  have log2: "messages (state ?p2) =
      [\<lparr> msgId = generateMessageId (clockAt 10 ''abc''), msgType = User, content = ''hello'',
         timestamp = 10, metadata = Some (emptyMetadata\<lparr> emotions := Some joy \<rparr>) \<rparr>]"
    by (simp add: upd i0 log1 spread_def)
  have h2: "\<forall>m \<in> set (messages (state ?p2)). \<not> userWithoutEmotions m"
    by (simp add: log2 userWithoutEmotions_def)
  from emotions_attach_to_latest_unattached_user_message [of ?p2 "clockAt 30 ''ghi''" joy] h2
  have same: "onEmotion (clockAt 30 ''ghi'') ?p2 joy = ?p2" by blast
  show ?thesis using h1 h2 same by (simp add: log2)
qed

text \<open>
  C10. A connection-state change, whatever the target state, leaves the error field null and
  the idle-warning snapshot cleared (and sets the connection status to the target state).
\<close>

theorem state_change_wipes_error_and_idle_warning:
  "error (state (onStateChange env p cs)) = ErrorNull
   \<and> idleWarning (state (onStateChange env p cs)) = None
   \<and> readyState (state (onStateChange env p cs)) = cs"
  by (simp add: onStateChange_def dispatch_def)

section \<open>Properties of the transport channel\<close>

lemma setConnectionState_fields:
  "connectionState (fst (setConnectionState m s)) = s"
  "reconnectAttempts (fst (setConnectionState m s)) = reconnectAttempts m"
  "maxReconnectAttempts (fst (setConnectionState m s)) = maxReconnectAttempts m"
  "reconnectDelay (fst (setConnectionState m s)) = reconnectDelay m"
  "config (fst (setConnectionState m s)) = config m"
  "websocket (fst (setConnectionState m s)) = websocket m"
  "connectionId (fst (setConnectionState m s)) = connectionId m"
  "snd (setConnectionState m s) = (if connectionState m = s then [] else [StateChange s])"
  by (simp_all add: setConnectionState_def Let_def)

text \<open>
  The events between two closures: an open resets the attempt counter; an error event
  leaves the counter, the maximum, the base delay and the configuration alone.
\<close>

lemma handleOpen_resets: "reconnectAttempts (fst (handleOpen m)) = 0"
  by (simp add: handleOpen_def setConnectionState_fields)

lemma handleError_keeps:
  "reconnectAttempts (fst (handleError m)) = reconnectAttempts m
   \<and> maxReconnectAttempts (fst (handleError m)) = maxReconnectAttempts m
   \<and> reconnectDelay (fst (handleError m)) = reconnectDelay m
   \<and> config (fst (handleError m)) = config m"
  by (simp add: handleError_def split_beta setConnectionState_fields)

text \<open>
  C6. A close with code 1000 leaves the connection Disconnected, with no error and no
  retry. A close with a code of 4000 or more leaves it in Error, emits exactly one error,
  which carries the server's reason, and starts no reconnection. Any other code is handed
  to \<^verbatim>\<open>attemptReconnection\<close>; while attempts remain (the counter is below the maximum and
  the configuration is still held) the connection state does not change and the only
  effect is the retry timer.
\<close>

theorem close_code_taxonomy:
 "(code = 1000 \<longrightarrow>
     connectionState (fst (handleClose m code reason)) = Disconnected
     \<and> filter isErrorSignal (snd (handleClose m code reason)) = []
     \<and> filter isTimer (snd (handleClose m code reason)) = [])
  \<and> (4000 \<le> code \<longrightarrow>
     connectionState (fst (handleClose m code reason)) = Error
     \<and> filter isErrorSignal (snd (handleClose m code reason)) =
         [ErrorSignal \<lparr> errorMessage = ''Connection closed: '' @ reason,
                        errorCode = WEBSOCKET_ERROR, errorDetails = CloseInfo code reason \<rparr>]
     \<and> filter isTimer (snd (handleClose m code reason)) = []
     \<and> reconnectAttempts (fst (handleClose m code reason)) = reconnectAttempts m)
  \<and> (code \<noteq> 1000 \<and> code < 4000 \<longrightarrow>
     handleClose m code reason = attemptReconnection (m\<lparr> websocket := None \<rparr>))
  \<and> (code \<noteq> 1000 \<and> code < 4000 \<and> reconnectAttempts m < maxReconnectAttempts m
        \<and> config m \<noteq> None \<longrightarrow>
     connectionState (fst (handleClose m code reason)) = connectionState m
     \<and> snd (handleClose m code reason) = [SetTimeout (reconnectDelay m * 2 ^ reconnectAttempts m)]
     \<and> reconnectAttempts (fst (handleClose m code reason)) = reconnectAttempts m + 1)"
  by (auto simp: handleClose_def attemptReconnection_def Let_def split_beta setConnectionState_fields)

text \<open>
  The theorem on an open connection: a normal close, a rejection by the server with its
  reason, and an abnormal close (1006) that starts the first retry after one second.
\<close>

theorem close_code_taxonomy_witness:
  "connectionState (fst (handleClose liveManager 1000 ''bye'')) = Disconnected
   \<and> filter isErrorSignal (snd (handleClose liveManager 1000 ''bye'')) = []
   \<and> connectionState (fst (handleClose liveManager 4001 ''invalid api key'')) = Error
   \<and> filter isErrorSignal (snd (handleClose liveManager 4001 ''invalid api key'')) =
        [ErrorSignal \<lparr> errorMessage = ''Connection closed: invalid api key'',
                       errorCode = WEBSOCKET_ERROR,
                       errorDetails = CloseInfo 4001 ''invalid api key'' \<rparr>]
   \<and> reconnectAttempts liveManager < maxReconnectAttempts liveManager
   \<and> config liveManager \<noteq> None
   \<and> connectionState (fst (handleClose liveManager 1006 [])) = Connected
   \<and> snd (handleClose liveManager 1006 []) = [SetTimeout 1000]"
proof -
  have live: "reconnectAttempts liveManager < maxReconnectAttempts liveManager"
    "config liveManager \<noteq> None" "connectionState liveManager = Connected"
    "reconnectDelay liveManager = 1000" "reconnectAttempts liveManager = 0"
    by (simp_all add: liveManager_def newWebSocketManager_def)
  from close_code_taxonomy [of 1000 liveManager "''bye''"]
  have normal: "connectionState (fst (handleClose liveManager 1000 ''bye'')) = Disconnected
     \<and> filter isErrorSignal (snd (handleClose liveManager 1000 ''bye'')) = []"
    by simp
  from close_code_taxonomy [of 4001 liveManager "''invalid api key''"]
  have rejected: "connectionState (fst (handleClose liveManager 4001 ''invalid api key'')) = Error
     \<and> filter isErrorSignal (snd (handleClose liveManager 4001 ''invalid api key'')) =
        [ErrorSignal \<lparr> errorMessage = ''Connection closed: invalid api key'',
                       errorCode = WEBSOCKET_ERROR,
                       errorDetails = CloseInfo 4001 ''invalid api key'' \<rparr>]"
    by simp
  have pre: "(1006::nat) \<noteq> 1000 \<and> (1006::nat) < 4000
      \<and> reconnectAttempts liveManager < maxReconnectAttempts liveManager
      \<and> config liveManager \<noteq> None"
    using live by simp
  from close_code_taxonomy [of 1006 liveManager "[]"] pre
  have "connectionState (fst (handleClose liveManager 1006 [])) = connectionState liveManager
     \<and> snd (handleClose liveManager 1006 []) =
         [SetTimeout (reconnectDelay liveManager * 2 ^ reconnectAttempts liveManager)]"
    by blast
  then have transient: "connectionState (fst (handleClose liveManager 1006 [])) = Connected
     \<and> snd (handleClose liveManager 1006 []) = [SetTimeout 1000]"
    using live by simp
  show ?thesis using normal rejected transient live by simp
qed

lemma handleClose_retry:
  "config m \<noteq> None \<Longrightarrow> reconnectAttempts m < maxReconnectAttempts m \<Longrightarrow> code \<noteq> 1000 \<Longrightarrow>
   code < 4000 \<Longrightarrow>
   handleClose m code reason =
     (m\<lparr> websocket := None, reconnectAttempts := reconnectAttempts m + 1 \<rparr>,
      [SetTimeout (reconnectDelay m * 2 ^ reconnectAttempts m)])"
  by (auto simp: handleClose_def attemptReconnection_def Let_def)

lemma handleClose_exhausted:
  "maxReconnectAttempts m \<le> reconnectAttempts m \<Longrightarrow> code \<noteq> 1000 \<Longrightarrow> code < 4000 \<Longrightarrow>
   connectionState (fst (handleClose m code reason)) = Error \<and>
   filter isErrorSignal (snd (handleClose m code reason)) = [ErrorSignal maxReconnectExceeded] \<and>
   filter isTimer (snd (handleClose m code reason)) = []"
  by (simp add: handleClose_def attemptReconnection_def Let_def split_beta setConnectionState_fields)

lemma closures_retry:
  "config m \<noteq> None \<Longrightarrow> reconnectAttempts m < maxReconnectAttempts m \<Longrightarrow> code \<noteq> 1000 \<Longrightarrow>
   code < 4000 \<Longrightarrow>
   closures m ((code, reason) # rest) =
     (fst (closures (m\<lparr> websocket := None, reconnectAttempts := reconnectAttempts m + 1 \<rparr>) rest),
      SetTimeout (reconnectDelay m * 2 ^ reconnectAttempts m) #
      snd (closures (m\<lparr> websocket := None, reconnectAttempts := reconnectAttempts m + 1 \<rparr>) rest))"
  by (simp add: handleClose_retry split_beta)

lemma closures_exhausted:
  "maxReconnectAttempts m \<le> reconnectAttempts m \<Longrightarrow> code \<noteq> 1000 \<Longrightarrow> code < 4000 \<Longrightarrow>
   connectionState (fst (closures m [(code, reason)])) = Error \<and>
   filter isErrorSignal (snd (closures m [(code, reason)])) = [ErrorSignal maxReconnectExceeded] \<and>
   filter isTimer (snd (closures m [(code, reason)])) = []"
  using handleClose_exhausted [of m code reason] by (simp add: split_beta)

text \<open>
  C5. With a maximum of three reconnection attempts, a held configuration and a fresh
  attempt counter: after four abnormal closures in a row (each code neither 1000 nor 4000
  or more) the connection state is Error, exactly one "maximum reconnection attempts
  exceeded" error has been signalled, and the retries were scheduled after
  \<open>base * 2 ^ (k - 1)\<close> milliseconds for \<open>k = 1, 2, 3\<close>.
\<close>

theorem reconnection_bound:
  assumes cfg: "config m \<noteq> None" and fresh: "reconnectAttempts m = 0"
    and mx: "maxReconnectAttempts m = 3"
    and c1: "c1 \<noteq> 1000 \<and> c1 < 4000" and c2: "c2 \<noteq> 1000 \<and> c2 < 4000"
    and c3: "c3 \<noteq> 1000 \<and> c3 < 4000" and c4: "c4 \<noteq> 1000 \<and> c4 < 4000"
  shows "connectionState (fst (closures m [(c1, r1), (c2, r2), (c3, r3), (c4, r4)])) = Error
    \<and> filter isErrorSignal (snd (closures m [(c1, r1), (c2, r2), (c3, r3), (c4, r4)]))
        = [ErrorSignal maxReconnectExceeded]
    \<and> filter isTimer (snd (closures m [(c1, r1), (c2, r2), (c3, r3), (c4, r4)]))
        = map (\<lambda>k. SetTimeout (reconnectDelay m * 2 ^ (k - 1))) [1, 2, 3]"
proof -
  let ?m3 = "m\<lparr> websocket := None, reconnectAttempts := 3 \<rparr>"
  have three: "closures m [(c1, r1), (c2, r2), (c3, r3), (c4, r4)] =
      (fst (closures ?m3 [(c4, r4)]),
       SetTimeout (reconnectDelay m * 2 ^ 0) # SetTimeout (reconnectDelay m * 2 ^ 1) #
       SetTimeout (reconnectDelay m * 2 ^ 2) # snd (closures ?m3 [(c4, r4)]))"
    using cfg fresh mx c1 c2 c3
    by (simp add: closures_retry numeral_3_eq_3 del: closures.simps)
  have last: "connectionState (fst (closures ?m3 [(c4, r4)])) = Error \<and>
     filter isErrorSignal (snd (closures ?m3 [(c4, r4)])) = [ErrorSignal maxReconnectExceeded] \<and>
     filter isTimer (snd (closures ?m3 [(c4, r4)])) = []"
    using closures_exhausted [of ?m3 c4 r4] mx c4 by simp
  show ?thesis
    unfolding three using last by simp
qed

text \<open>The theorem on an open connection with the default base delay of one second.\<close>

theorem reconnection_bound_witness:
  "config liveManager \<noteq> None \<and> reconnectAttempts liveManager = 0
   \<and> maxReconnectAttempts liveManager = 3
   \<and> connectionState (fst (closures liveManager [(1006, []), (1006, []), (1001, ''gone''), (1006, [])]))
       = Error
   \<and> filter isErrorSignal
        (snd (closures liveManager [(1006, []), (1006, []), (1001, ''gone''), (1006, [])]))
       = [ErrorSignal maxReconnectExceeded]
   \<and> filter isTimer
        (snd (closures liveManager [(1006, []), (1006, []), (1001, ''gone''), (1006, [])]))
       = [SetTimeout 1000, SetTimeout 2000, SetTimeout 4000]"
proof -
  have live: "config liveManager \<noteq> None" "reconnectAttempts liveManager = 0"
    "maxReconnectAttempts liveManager = 3" "reconnectDelay liveManager = 1000"
    by (simp_all add: liveManager_def newWebSocketManager_def)
  from reconnection_bound [of liveManager 1006 1006 1001 1006 "[]" "[]" "''gone''" "[]"] live
  show ?thesis by simp
qed

text \<open>
  \<^verbatim>\<open>WebSocketManager.disconnect()\<close> has no await and no failing step; a second call after
  a first changes nothing and signals nothing.
\<close>

lemma setConnectionState_same [simp]:
  "connectionState m = s \<Longrightarrow> setConnectionState m s = (m, [])"
  by (simp add: setConnectionState_def)

lemma wsDisconnect_after:
  "websocket (fst (wsDisconnect m)) = None"
  "connectionState (fst (wsDisconnect m)) = Disconnected"
  "connectionId (fst (wsDisconnect m)) = None"
  "config (fst (wsDisconnect m)) = None"
  "reconnectAttempts (fst (wsDisconnect m)) = 0"
  "isConnecting (fst (wsDisconnect m)) = False"
  by (simp_all add: wsDisconnect_def setConnectionState_def settlesConnect_def Let_def split_beta
        split: option.splits)

lemma wsDisconnect_settled:
  "websocket m = None \<Longrightarrow> connectionState m = Disconnected \<Longrightarrow> connectionId m = None \<Longrightarrow>
   config m = None \<Longrightarrow> reconnectAttempts m = 0 \<Longrightarrow> isConnecting m = False \<Longrightarrow>
   wsDisconnect m = (m, [])"
  by (simp add: wsDisconnect_def Let_def)

lemma wsDisconnect_idem: "wsDisconnect (fst (wsDisconnect m)) = (fst (wsDisconnect m), [])"
  by (rule wsDisconnect_settled) (rule wsDisconnect_after)+

section \<open>Teardown: overlapping and successive disconnect calls\<close>

text \<open>The provider's callbacks leave the refs alone.\<close>

lemma wsSignal_refs:
  "wsManagerRef (wsSignal env fx p) = wsManagerRef p"
  "audioManagerRef (wsSignal env fx p) = audioManagerRef p"
  "currentStreamingMessageId (wsSignal env fx p) = currentStreamingMessageId p"
  by (cases fx; simp add: onStateChange_def onError_def addMessage_def dispatch_def)+

lemma fold_wsSignal_refs:
  "wsManagerRef (fold (wsSignal env) fxs p) = wsManagerRef p \<and>
   audioManagerRef (fold (wsSignal env) fxs p) = audioManagerRef p \<and>
   currentStreamingMessageId (fold (wsSignal env) fxs p) = currentStreamingMessageId p"
  by (induction fxs arbitrary: p) (simp_all add: wsSignal_refs)

text \<open>
  Every \<^verbatim>\<open>disconnect()\<close> call settles: after five resumptions it has returned or is
  rejected.
\<close>

lemma awaitsLeft_bound: "awaitsLeft r \<le> 5"
  by (induction r rule: awaitsLeft.induct) simp_all

lemma audioCleanupEnd_run: "snd (snd (audioCleanupEnd am)) = AudioReturned"
  by (simp add: audioCleanupEnd_def split_beta)

lemma audioCleanupTTS_run:
  "snd (snd (audioCleanupTTS am)) = AudioReturned
   \<or> (\<exists>outcome. snd (snd (audioCleanupTTS am)) = AudioAwaiting AwaitTTSAudioContextClose outcome)"
  by (simp add: audioCleanupTTS_def audioCleanupEnd_run split_beta split: option.split)

lemma audioCleanupResume_run:
  "awaitsLeft (awaitingCleanup (awaitingAudio (snd (snd (audioCleanupResume aw outcome am)))))
     < awaitsLeft (DisconnectAwaiting (CleanupPending (AudioCleanupPending aw outcome)))"
proof (cases outcome)
  case Fulfilled
  show ?thesis
  proof (cases aw)
    case AwaitAudioContextClose
    with Fulfilled audioCleanupTTS_run [of "am\<lparr> audioContext := None \<rparr>"] show ?thesis
      by (auto simp: audioCleanupResume_def)
  next
    case AwaitTTSAudioContextClose
    with Fulfilled show ?thesis
      by (simp add: audioCleanupResume_def audioCleanupEnd_run)
  qed
next
  case (Rejected e)
  then show ?thesis by (cases aw) (simp_all add: audioCleanupResume_def)
qed

lemma cleanupEnd_run: "snd (snd (cleanupEnd env p)) = CleanupReturned"
  by (simp add: cleanupEnd_def Let_def)

lemma cleanupWs_run:
  "snd (snd (cleanupWs env p)) = CleanupReturned
   \<or> snd (snd (cleanupWs env p)) = CleanupAwaiting WsDisconnectSettled"
  by (simp add: cleanupWs_def cleanupEnd_run split: option.split)

lemma cleanupResume_run:
  "awaitsLeft (awaitingCleanup (snd (snd (cleanupResume env cw p))))
     < awaitsLeft (DisconnectAwaiting (CleanupPending cw))"
proof (cases cw)
  case (AudioCleanupPending aw outcome)
  show ?thesis
  proof (cases "audioManagerRef p")
    case None
    with AudioCleanupPending show ?thesis
      by (cases aw) (simp_all add: cleanupResume_def)
  next
    case (Some am)
    with AudioCleanupPending audioCleanupResume_run [of aw outcome am] show ?thesis
      by (simp add: cleanupResume_def split_beta)
  qed
next
  case (AudioCleanupSettled r)
  show ?thesis
  proof (cases r)
    case None
    with AudioCleanupSettled cleanupWs_run [of env "p\<lparr> audioManagerRef := None \<rparr>"] show ?thesis
      by (auto simp: cleanupResume_def)
  next
    case (Some e)
    with AudioCleanupSettled show ?thesis by (simp add: cleanupResume_def)
  qed
next
  case WsDisconnectSettled
  then show ?thesis by (simp add: cleanupResume_def cleanupEnd_run)
qed

lemma disconnectResume_run:
  "awaitsLeft (snd (snd (disconnectResume env w p))) < awaitsLeft (DisconnectAwaiting w)"
proof (cases w)
  case (CleanupPending cw)
  with cleanupResume_run [of env cw p] show ?thesis
    by (simp add: disconnectResume_def split_beta)
next
  case (CleanupSettled r)
  then show ?thesis by (cases r) (simp_all add: disconnectResume_def)
qed

lemma disconnectStep_run:
  "awaitsLeft (snd (snd (disconnectStep env c))) \<le> awaitsLeft (snd (snd c)) - 1"
proof (cases c)
  case (fields p fx run)
  show ?thesis
  proof (cases run)
    case (DisconnectAwaiting w)
    with fields disconnectResume_run [of env w p] show ?thesis
      by (simp add: disconnectStep_def split_beta)
  next
    case DisconnectReturned
    with fields show ?thesis by (simp add: disconnectStep_def)
  next
    case (DisconnectThrew e)
    with fields show ?thesis by (simp add: disconnectStep_def)
  qed
qed

lemma disconnect_settles: "awaitsLeft (snd (snd (disconnect env p))) = 0"
proof -
  let ?c0 = "disconnectStart env p"
  let ?c1 = "disconnectStep env ?c0"
  let ?c2 = "disconnectStep env ?c1"
  let ?c3 = "disconnectStep env ?c2"
  let ?c4 = "disconnectStep env ?c3"
  let ?c5 = "disconnectStep env ?c4"
  have "awaitsLeft (snd (snd ?c0)) \<le> 5" by (rule awaitsLeft_bound)
  with disconnectStep_run [of env ?c0] have "awaitsLeft (snd (snd ?c1)) \<le> 4" by simp
  with disconnectStep_run [of env ?c1] have "awaitsLeft (snd (snd ?c2)) \<le> 3" by simp
  with disconnectStep_run [of env ?c2] have "awaitsLeft (snd (snd ?c3)) \<le> 2" by simp
  with disconnectStep_run [of env ?c3] have "awaitsLeft (snd (snd ?c4)) \<le> 1" by simp
  with disconnectStep_run [of env ?c4] have "awaitsLeft (snd (snd ?c5)) \<le> 0" by simp
  then show ?thesis by (simp add: disconnect_def disconnectSettle_def)
qed

text \<open>
  A call that returned leaves the provider as at mount, so a second call that starts after
  the first returned finds nothing to release, dispatches into the initial state and
  returns.
\<close>

lemma invariant_audio: "teardownInvariant p (awaitingCleanup (awaitingAudio r))"
  by (cases r) simp_all

lemma invariant_end:
  "audioManagerRef p = None \<Longrightarrow> wsManagerRef p = None \<Longrightarrow>
   teardownInvariant (fst (cleanupEnd env p)) (awaitingCleanup (snd (snd (cleanupEnd env p))))"
  by (simp add: cleanupEnd_def dispatch_def Let_def)

lemma invariant_ws:
  "audioManagerRef p = None \<Longrightarrow>
   teardownInvariant (fst (cleanupWs env p)) (awaitingCleanup (snd (snd (cleanupWs env p))))"
proof (cases "wsManagerRef p")
  case None
  assume "audioManagerRef p = None"
  with None invariant_end [of p env] show ?thesis by (simp add: cleanupWs_def)
next
  case (Some ws)
  assume "audioManagerRef p = None"
  with Some show ?thesis by (simp add: cleanupWs_def fold_wsSignal_refs)
qed

lemma invariant_start:
  "teardownInvariant (fst (disconnectStart env p)) (snd (snd (disconnectStart env p)))"
proof (cases "audioManagerRef p")
  case None
  with invariant_ws [of p env] show ?thesis
    by (simp add: disconnectStart_def cleanupStart_def split_beta)
next
  case (Some am)
  then show ?thesis
    by (simp add: disconnectStart_def cleanupStart_def split_beta invariant_audio)
qed

lemma invariant_resume:
  assumes "teardownInvariant p (DisconnectAwaiting w)"
  shows "teardownInvariant (fst (disconnectResume env w p)) (snd (snd (disconnectResume env w p)))"
proof (cases w)
  case (CleanupPending cw)
  show ?thesis
  proof (cases cw)
    case (AudioCleanupPending aw outcome)
    with CleanupPending show ?thesis
      by (cases "audioManagerRef p"; cases outcome)
         (simp_all add: disconnectResume_def cleanupResume_def split_beta invariant_audio)
  next
    case (AudioCleanupSettled r)
    show ?thesis
    proof (cases r)
      case None
      with CleanupPending AudioCleanupSettled invariant_ws [of "p\<lparr> audioManagerRef := None \<rparr>" env]
      show ?thesis by (simp add: disconnectResume_def cleanupResume_def split_beta)
    next
      case (Some e)
      with CleanupPending AudioCleanupSettled show ?thesis
        by (simp add: disconnectResume_def cleanupResume_def)
    qed
  next
    case WsDisconnectSettled
    with CleanupPending assms invariant_end [of "p\<lparr> wsManagerRef := None \<rparr>" env] show ?thesis
      by (simp add: disconnectResume_def cleanupResume_def split_beta)
  qed
next
  case (CleanupSettled r)
  show ?thesis
  proof (cases r)
    case None
    with CleanupSettled assms have "dispatch env p RESET_STATE = freshProvider"
      by (intro Provider.equality) (simp_all add: dispatch_def freshProvider_def)
    with CleanupSettled None show ?thesis by (simp add: disconnectResume_def)
  next
    case (Some e)
    with CleanupSettled show ?thesis by (simp add: disconnectResume_def)
  qed
qed

lemma invariant_step:
  assumes "teardownInvariant (fst c) (snd (snd c))"
  shows "teardownInvariant (fst (disconnectStep env c)) (snd (snd (disconnectStep env c)))"
proof (cases c)
  case (fields p fx run)
  show ?thesis
  proof (cases run)
    case (DisconnectAwaiting w)
    with fields assms invariant_resume [of p w env] show ?thesis
      by (simp add: disconnectStep_def split_beta)
  next
    case DisconnectReturned
    with fields assms show ?thesis by (simp add: disconnectStep_def)
  next
    case (DisconnectThrew e)
    with fields show ?thesis by (simp add: disconnectStep_def)
  qed
qed

lemma disconnect_returned_fresh:
  assumes "snd (snd (disconnect env p)) = DisconnectReturned"
  shows "fst (disconnect env p) = freshProvider"
proof -
  have "teardownInvariant (fst (disconnect env p)) (snd (snd (disconnect env p)))"
    unfolding disconnect_def disconnectSettle_def
    by (intro invariant_step invariant_start)
  with assms show ?thesis by simp
qed

lemma disconnect_fresh: "disconnect env freshProvider = (freshProvider, [], DisconnectReturned)"
  by (simp add: disconnect_def disconnectSettle_def disconnectStep_def disconnectStart_def
        disconnectResume_def cleanupStart_def cleanupWs_def cleanupEnd_def dispatch_def
        freshProvider_def initialState_def Let_def)

lemma second_disconnect_after_first_returned:
  assumes "snd (snd (disconnect env p)) = DisconnectReturned"
  shows "disconnect env' (fst (disconnect env p)) = (fst (disconnect env p), [], DisconnectReturned)"
  using disconnect_returned_fresh [OF assms] by (simp add: disconnect_fresh)

text \<open>On a quiet provider a \<^verbatim>\<open>disconnect()\<close> call with nothing in between returns.\<close>

lemma audioCleanupTTS_open:
  assumes "ttsAudioContext am \<noteq> Some Closed"
  shows "snd (snd (audioCleanupTTS am)) = AudioReturned
     \<or> snd (snd (audioCleanupTTS am)) = AudioAwaiting AwaitTTSAudioContextClose Fulfilled"
  using assms
  by (cases "ttsAudioContext am")
     (simp_all add: audioCleanupTTS_def audioCleanupEnd_def closeContext_def split_beta)

lemma audioCleanupStart_open:
  assumes "audioContext am \<noteq> Some Closed" "ttsAudioContext am \<noteq> Some Closed"
  shows "snd (snd (audioCleanupStart am)) = AudioReturned
     \<or> snd (snd (audioCleanupStart am)) = AudioAwaiting AwaitTTSAudioContextClose Fulfilled
     \<or> (snd (snd (audioCleanupStart am)) = AudioAwaiting AwaitAudioContextClose Fulfilled
        \<and> ttsAudioContext (fst (audioCleanupStart am)) \<noteq> Some Closed)"
proof (cases "audioContext am")
  case None
  let ?am4 = "am\<lparr> audioIsRecording := False, audioIsTTSPlaying := False, micWorkletNode := None,
                  ttsWorkletNode := None, mediaStream := None \<rparr>"
  have run: "snd (snd (audioCleanupStart am)) = snd (snd (audioCleanupTTS ?am4))"
    using None
    by (simp add: audioCleanupStart_def audioCleanupTTS_def audioCleanupEnd_def
          stopAudioLevelMonitoring_def Let_def split_beta split: option.split)
  from assms(2) have "ttsAudioContext ?am4 \<noteq> Some Closed" by simp
  from audioCleanupTTS_open [OF this] run show ?thesis by auto
next
  case (Some c)
  with assms(1) have "c \<noteq> Closed" by simp
  with Some assms(2) show ?thesis
    by (simp add: audioCleanupStart_def closeContext_def Let_def split_beta split: option.split)
qed

lemma onCourse_start:
  assumes "quiet p"
  shows "onCourse (fst (disconnectStart env p)) (snd (snd (disconnectStart env p)))"
proof (cases "audioManagerRef p")
  case None
  with cleanupWs_run [of env p] show ?thesis
    by (auto simp: disconnectStart_def cleanupStart_def split_beta)
next
  case (Some am)
  with assms have "audioContext am \<noteq> Some Closed" "ttsAudioContext am \<noteq> Some Closed"
    by (simp_all add: quiet_def split: if_splits)
  from audioCleanupStart_open [OF this] Some show ?thesis
    by (auto simp: disconnectStart_def cleanupStart_def split_beta ttsOpen_def)
qed

lemma onCourse_resume:
  assumes "onCourse p (DisconnectAwaiting w)"
  shows "onCourse (fst (disconnectResume env w p)) (snd (snd (disconnectResume env w p)))"
proof (cases w)
  case (CleanupPending cw)
  show ?thesis
  proof (cases cw)
    case (AudioCleanupPending aw outcome)
    show ?thesis
    proof (cases "audioManagerRef p")
      case None
      with CleanupPending AudioCleanupPending assms show ?thesis
        by (cases aw) (simp_all add: disconnectResume_def cleanupResume_def)
    next
      case (Some am)
      show ?thesis
      proof (cases aw)
        case AwaitAudioContextClose
        with CleanupPending AudioCleanupPending assms Some
        have f: "outcome = Fulfilled" and t: "ttsAudioContext am \<noteq> Some Closed"
          by (simp_all add: ttsOpen_def split: if_splits)
        from t have "ttsAudioContext (am\<lparr> audioContext := None \<rparr>) \<noteq> Some Closed" by simp
        from audioCleanupTTS_open [OF this]
        show ?thesis
          using CleanupPending AudioCleanupPending Some AwaitAudioContextClose f
          by (auto simp: disconnectResume_def cleanupResume_def audioCleanupResume_def split_beta)
      next
        case AwaitTTSAudioContextClose
        with CleanupPending AudioCleanupPending assms Some show ?thesis
          by (simp add: disconnectResume_def cleanupResume_def audioCleanupResume_def
                audioCleanupEnd_run split_beta)
      qed
    qed
  next
    case (AudioCleanupSettled r)
    with CleanupPending assms have "r = None" by simp
    with CleanupPending AudioCleanupSettled cleanupWs_run [of env "p\<lparr> audioManagerRef := None \<rparr>"]
    show ?thesis by (auto simp: disconnectResume_def cleanupResume_def split_beta)
  next
    case WsDisconnectSettled
    with CleanupPending show ?thesis
      by (simp add: disconnectResume_def cleanupResume_def cleanupEnd_run split_beta)
  qed
next
  case (CleanupSettled r)
  with assms have "r = None" by simp
  with CleanupSettled show ?thesis by (simp add: disconnectResume_def)
qed

lemma onCourse_step:
  assumes "onCourse (fst c) (snd (snd c))"
  shows "onCourse (fst (disconnectStep env c)) (snd (snd (disconnectStep env c)))"
proof (cases c)
  case (fields p fx run)
  show ?thesis
  proof (cases run)
    case (DisconnectAwaiting w)
    with fields assms onCourse_resume [of p w env] show ?thesis
      by (simp add: disconnectStep_def split_beta)
  next
    case DisconnectReturned
    with fields show ?thesis by (simp add: disconnectStep_def)
  next
    case (DisconnectThrew e)
    with fields assms show ?thesis by simp
  qed
qed

lemma quiet_disconnect_returns:
  assumes "quiet p"
  shows "snd (snd (disconnect env p)) = DisconnectReturned"
proof -
  have "onCourse (fst (disconnect env p)) (snd (snd (disconnect env p)))"
    unfolding disconnect_def disconnectSettle_def
    by (intro onCourse_step onCourse_start assms)
  moreover have "awaitsLeft (snd (snd (disconnect env p))) = 0" by (rule disconnect_settles)
  ultimately show ?thesis
    by (cases "snd (snd (disconnect env p))" rule: awaitsLeft.cases) simp_all
qed

text \<open>
  C8. Two \<^verbatim>\<open>disconnect()\<close> calls on a running session, the second issued while the first
  is suspended at its first await (the close of the capture context). The second call
  finds the context still in its field, closes it again and is rejected with an
  InvalidStateError; it releases nothing, dispatches nothing and leaves the session
  Connected. The first call then runs on and ends as a single call does: the provider as
  at mount, every resource released once.
\<close>

theorem overlapping_disconnect_rejects:
  "snd (snd (disconnectStart (clockAt 10 ''abc'') connectedProvider))
     = DisconnectAwaiting (CleanupPending (AudioCleanupPending AwaitAudioContextClose Fulfilled))
   \<and> snd (snd (disconnect (clockAt 20 ''def'')
         (fst (disconnectStart (clockAt 10 ''abc'') connectedProvider))))
     = DisconnectThrew InvalidStateError
   \<and> fst (snd (disconnect (clockAt 20 ''def'')
         (fst (disconnectStart (clockAt 10 ''abc'') connectedProvider)))) = []
   \<and> fst (disconnect (clockAt 20 ''def'')
         (fst (disconnectStart (clockAt 10 ''abc'') connectedProvider)))
     = fst (disconnectStart (clockAt 10 ''abc'') connectedProvider)
   \<and> readyState (state (fst (disconnect (clockAt 20 ''def'')
         (fst (disconnectStart (clockAt 10 ''abc'') connectedProvider))))) = Connected
   \<and> disconnectSettle (clockAt 30 ''ghi'')
         (fst (disconnect (clockAt 20 ''def'')
            (fst (disconnectStart (clockAt 10 ''abc'') connectedProvider))),
          snd (disconnectStart (clockAt 10 ''abc'') connectedProvider))
     = (freshProvider,
        [MicWorkletDisconnected, TTSWorkletDisconnected, MediaTracksStopped, AudioContextClosed,
         TTSAudioContextClosed, IntervalCleared 7,
         SocketClose (WebSocket ''wss://api.nextevi.com/ws/voice/voice_10_abc?config_id=c1'') 1000
           ''User initiated disconnect'',
         StateChange Disconnected],
        DisconnectReturned)
   \<and> disconnect (clockAt 10 ''abc'') connectedProvider
     = (freshProvider,
        [MicWorkletDisconnected, TTSWorkletDisconnected, MediaTracksStopped, AudioContextClosed,
         TTSAudioContextClosed, IntervalCleared 7,
         SocketClose (WebSocket ''wss://api.nextevi.com/ws/voice/voice_10_abc?config_id=c1'') 1000
           ''User initiated disconnect'',
         StateChange Disconnected],
        DisconnectReturned)"
  by code_simp

subsection \<open>A waiting call and the audio manager ref\<close>

text \<open>
  However \<^verbatim>\<open>disconnect()\<close> calls interleave, a call that waits for a context it closed finds
  the audio manager in the ref when it resumes: the ref is nulled only by a call whose
  \<^verbatim>\<open>AudioManager.cleanup()\<close> has returned, and there is none while a context is set.
\<close>

lemma audioCleanupEnd_contexts:
  "audioContext (fst (audioCleanupEnd am)) = audioContext am"
  "ttsAudioContext (fst (audioCleanupEnd am)) = ttsAudioContext am"
  by (simp_all add: audioCleanupEnd_def stopAudioLevelMonitoring_def split_beta split: option.split)

lemma audioCleanupTTS_cases:
  "audioContext (fst (audioCleanupTTS am)) = audioContext am
   \<and> (case ttsAudioContext am of
      Some c \<Rightarrow> ttsAudioContext (fst (audioCleanupTTS am)) = Some Closed
               \<and> snd (snd (audioCleanupTTS am)) = AudioAwaiting AwaitTTSAudioContextClose (closeOutcome c)
    | None \<Rightarrow> ttsAudioContext (fst (audioCleanupTTS am)) = None
             \<and> snd (snd (audioCleanupTTS am)) = AudioReturned)"
  by (cases "ttsAudioContext am")
     (simp_all add: audioCleanupTTS_def audioCleanupEnd_contexts audioCleanupEnd_run closeContext_def
        closeOutcome_def split_beta)

lemma audioCleanupStart_cases:
  "(case audioContext am of
      Some c \<Rightarrow> audioContext (fst (audioCleanupStart am)) = Some Closed
               \<and> ttsAudioContext (fst (audioCleanupStart am)) = ttsAudioContext am
               \<and> snd (snd (audioCleanupStart am)) = AudioAwaiting AwaitAudioContextClose (closeOutcome c)
    | None \<Rightarrow> audioContext (fst (audioCleanupStart am)) = None
             \<and> (case ttsAudioContext am of
                  Some c \<Rightarrow> ttsAudioContext (fst (audioCleanupStart am)) = Some Closed
                     \<and> snd (snd (audioCleanupStart am)) = AudioAwaiting AwaitTTSAudioContextClose (closeOutcome c)
                | None \<Rightarrow> ttsAudioContext (fst (audioCleanupStart am)) = None
                     \<and> snd (snd (audioCleanupStart am)) = AudioReturned))"
proof (cases "audioContext am")
  case None
  let ?am4 = "am\<lparr> audioIsRecording := False, audioIsTTSPlaying := False, micWorkletNode := None,
                  ttsWorkletNode := None, mediaStream := None \<rparr>"
  have eq: "fst (audioCleanupStart am) = fst (audioCleanupTTS ?am4)"
    "snd (snd (audioCleanupStart am)) = snd (snd (audioCleanupTTS ?am4))"
    using None
    by (simp_all add: audioCleanupStart_def audioCleanupTTS_def audioCleanupEnd_def
          stopAudioLevelMonitoring_def Let_def split_beta split: option.split)
  from audioCleanupTTS_cases [of ?am4] None show ?thesis
    by (simp add: eq split: option.splits)
next
  case (Some c)
  then show ?thesis
    by (simp add: audioCleanupStart_def closeContext_def closeOutcome_def Let_def split_beta
          split: option.split)
qed

lemma cleanupWs_audio: "audioManagerRef (fst (cleanupWs env p)) = audioManagerRef p"
  by (simp add: cleanupWs_def cleanupEnd_def dispatch_def Let_def fold_wsSignal_refs split: option.split)

lemma disconnectStart_none:
  assumes "audioManagerRef p = None"
  shows "heldContexts (fst (disconnectStart env p)) = None"
    and "snd (snd (disconnectStart env p)) = DisconnectAwaiting (CleanupSettled None)
         \<or> snd (snd (disconnectStart env p)) = DisconnectAwaiting (CleanupPending WsDisconnectSettled)"
  using assms cleanupWs_run [of env p]
  by (auto simp: disconnectStart_def cleanupStart_def heldContexts_def cleanupWs_audio split_beta)

lemma disconnectStart_some:
  assumes "audioManagerRef p = Some am"
  shows "heldContexts (fst (disconnectStart env p))
           = Some (audioContext (fst (audioCleanupStart am)), ttsAudioContext (fst (audioCleanupStart am)))"
    and "snd (snd (disconnectStart env p))
           = awaitingCleanup (awaitingAudio (snd (snd (audioCleanupStart am))))"
  using assms
  by (simp_all add: disconnectStart_def cleanupStart_def heldContexts_def split_beta)

lemma tally_snoc:
  "tally (calls @ [r]) = (case tally calls of (a1, a2, past) \<Rightarrow>
      (a1 + (if r = pendingOn AwaitAudioContextClose then 1 else 0),
       a2 + (if r = pendingOn AwaitTTSAudioContextClose then 1 else 0),
       past + (if r = pastAudio then 1 else 0)))"
  by (simp add: tally_def)

lemma contexts_call:
  assumes "contextsInvariant (p, calls)"
  shows "contextsInvariant (fst (disconnectStart env p), calls @ [snd (snd (disconnectStart env p))])"
proof (cases "audioManagerRef p")
  case None
  with assms disconnectStart_none [OF None, of env] show ?thesis
    by (cases "tally calls")
       (auto simp: contextsInvariant_def heldContexts_def tally_snoc pendingOn_def pastAudio_def)
next
  case (Some am)
  obtain a1 a2 past where t: "tally calls = (a1, a2, past)" by (cases "tally calls")
  show ?thesis
  proof (cases "audioContext am")
    case ac: (Some c)
    with assms Some t audioCleanupStart_cases [of am] disconnectStart_some [OF Some, of env] show ?thesis
      by (cases "ttsAudioContext am")
         (auto simp: contextsInvariant_def heldContexts_def tally_snoc pendingOn_def pastAudio_def
            closeOutcome_def closeContext_def)
  next
    case ac: None
    with assms Some t audioCleanupStart_cases [of am] disconnectStart_some [OF Some, of env] show ?thesis
      by (cases "ttsAudioContext am")
         (auto simp: contextsInvariant_def heldContexts_def tally_snoc pendingOn_def pastAudio_def
            closeOutcome_def closeContext_def)
  qed
qed

lemma tally_mid:
  "tally (xs @ r # ys) = (case tally (xs @ ys) of (a1, a2, past) \<Rightarrow>
      (a1 + (if r = pendingOn AwaitAudioContextClose then 1 else 0),
       a2 + (if r = pendingOn AwaitTTSAudioContextClose then 1 else 0),
       past + (if r = pastAudio then 1 else 0)))"
  by (simp add: tally_def)

lemma disconnectResume_rejected:
  "disconnectResume env (CleanupPending (AudioCleanupPending aw (Rejected e))) p
     = (p, [], DisconnectAwaiting (CleanupPending (AudioCleanupSettled (Some e))))"
  by (cases "audioManagerRef p")
     (simp_all add: disconnectResume_def cleanupResume_def audioCleanupResume_def)

lemma disconnectResume_context:
  assumes "audioManagerRef p = Some am"
  shows "heldContexts (fst (disconnectResume env (CleanupPending (AudioCleanupPending AwaitAudioContextClose Fulfilled)) p))
           = Some (None, ttsAudioContext (fst (audioCleanupTTS (am\<lparr> audioContext := None \<rparr>))))"
    and "snd (snd (disconnectResume env (CleanupPending (AudioCleanupPending AwaitAudioContextClose Fulfilled)) p))
           = awaitingCleanup (awaitingAudio (snd (snd (audioCleanupTTS (am\<lparr> audioContext := None \<rparr>)))))"
  using assms audioCleanupTTS_cases [of "am\<lparr> audioContext := None \<rparr>"]
  by (simp_all add: disconnectResume_def cleanupResume_def audioCleanupResume_def heldContexts_def
        split_beta)

lemma disconnectResume_tts:
  assumes "audioManagerRef p = Some am"
  shows "heldContexts (fst (disconnectResume env (CleanupPending (AudioCleanupPending AwaitTTSAudioContextClose Fulfilled)) p))
           = Some (audioContext am, None)"
    and "snd (snd (disconnectResume env (CleanupPending (AudioCleanupPending AwaitTTSAudioContextClose Fulfilled)) p))
           = pastAudio"
  using assms
  by (simp_all add: disconnectResume_def cleanupResume_def audioCleanupResume_def heldContexts_def
        audioCleanupEnd_contexts audioCleanupEnd_run pastAudio_def split_beta)

lemma disconnectResume_past:
  shows "heldContexts (fst (disconnectResume env (CleanupPending (AudioCleanupSettled None)) p)) = None"
    and "snd (snd (disconnectResume env (CleanupPending (AudioCleanupSettled None)) p))
           = DisconnectAwaiting (CleanupSettled None)
         \<or> snd (snd (disconnectResume env (CleanupPending (AudioCleanupSettled None)) p))
           = DisconnectAwaiting (CleanupPending WsDisconnectSettled)"
  using cleanupWs_run [of env "p\<lparr> audioManagerRef := None \<rparr>"]
  by (auto simp: disconnectResume_def cleanupResume_def heldContexts_def cleanupWs_audio split_beta)

lemma disconnectResume_later:
  assumes "w = CleanupSettled r \<or> w = CleanupPending WsDisconnectSettled
           \<or> w = CleanupPending (AudioCleanupSettled (Some e))"
  shows "heldContexts (fst (disconnectResume env w p)) = heldContexts p"
    and "snd (snd (disconnectResume env w p)) \<noteq> pendingOn aw"
    and "snd (snd (disconnectResume env w p)) \<noteq> pastAudio"
  using assms
  by (auto simp: disconnectResume_def cleanupResume_def cleanupEnd_def heldContexts_def dispatch_def
        pendingOn_def pastAudio_def Let_def split: option.splits)

lemma held_cases:
  fixes h :: "(AudioContextState option \<times> AudioContextState option) option"
  obtains (gone) "h = None" | (first) c t where "h = Some (Some c, t)"
    | (second) c where "h = Some (None, Some c)" | (neither) "h = Some (None, None)"
proof (cases h)
  case None
  with that show ?thesis by simp
next
  case (Some ct)
  with that show ?thesis by (cases ct; cases "fst ct"; cases "snd ct") auto
qed

lemma contexts_resume:
  assumes "contextsInvariant (p, xs @ DisconnectAwaiting w # ys)"
  shows "contextsInvariant (fst (disconnectResume env w p), xs @ snd (snd (disconnectResume env w p)) # ys)"
proof -
  obtain a1 a2 past where t: "tally (xs @ ys) = (a1, a2, past)" by (cases "tally (xs @ ys)")
  consider (later) r e where "w = CleanupSettled r \<or> w = CleanupPending WsDisconnectSettled
           \<or> w = CleanupPending (AudioCleanupSettled (Some e))"
    | (settled) "w = CleanupPending (AudioCleanupSettled None)"
    | (rejected) aw e where "w = CleanupPending (AudioCleanupPending aw (Rejected e))"
    | (first) "w = CleanupPending (AudioCleanupPending AwaitAudioContextClose Fulfilled)"
    | (second) "w = CleanupPending (AudioCleanupPending AwaitTTSAudioContextClose Fulfilled)"
  proof (cases w)
    case (CleanupPending cw)
    show ?thesis
    proof (cases cw)
      case (AudioCleanupPending aw outcome)
      with CleanupPending that show ?thesis by (cases aw; cases outcome) auto
    next
      case (AudioCleanupSettled r)
      with CleanupPending that show ?thesis by (cases r) auto
    next
      case WsDisconnectSettled
      with CleanupPending that show ?thesis by auto
    qed
  next
    case (CleanupSettled r)
    with that show ?thesis by auto
  qed
  then show ?thesis
  proof cases
    case later
    have "DisconnectAwaiting w \<noteq> pendingOn AwaitAudioContextClose"
      "DisconnectAwaiting w \<noteq> pendingOn AwaitTTSAudioContextClose"
      "DisconnectAwaiting w \<noteq> pastAudio"
      using later by (auto simp: pendingOn_def pastAudio_def)
    with assms t disconnectResume_later [OF later, of env p] show ?thesis
      by (simp add: contextsInvariant_def tally_mid)
  next
    case settled
    with settled assms t disconnectResume_past [of env p] show ?thesis
      by (cases "heldContexts p" rule: held_cases)
         (auto simp: contextsInvariant_def tally_mid pendingOn_def pastAudio_def)
  next
    case rejected
    with assms t show ?thesis
      by (simp add: contextsInvariant_def tally_mid disconnectResume_rejected pendingOn_def pastAudio_def)
  next
    case first
    show ?thesis
    proof (cases "audioManagerRef p")
      case None
      with first assms t show ?thesis
        by (simp add: contextsInvariant_def tally_mid heldContexts_def pendingOn_def)
    next
      case (Some am)
      from first assms t Some have held: "audioContext am = Some Closed" "a1 = 0" "a2 = 0" "past = 0"
        by (cases "audioContext am"; cases "ttsAudioContext am";
            simp add: contextsInvariant_def tally_mid heldContexts_def pendingOn_def pastAudio_def
              split: if_splits)+
      from first held t Some disconnectResume_context [OF Some, of env]
        audioCleanupTTS_cases [of "am\<lparr> audioContext := None \<rparr>"]
      show ?thesis
        by (cases "ttsAudioContext am")
           (auto simp: contextsInvariant_def tally_mid pendingOn_def pastAudio_def closeOutcome_def
              closeContext_def)
    qed
  next
    case second
    show ?thesis
    proof (cases "audioManagerRef p")
      case None
      with second assms t show ?thesis
        by (simp add: contextsInvariant_def tally_mid heldContexts_def pendingOn_def)
    next
      case (Some am)
      from second assms t Some have held: "audioContext am = None" "a1 = 0" "a2 = 0" "past = 0"
        by (cases "audioContext am"; cases "ttsAudioContext am";
            simp add: contextsInvariant_def tally_mid heldContexts_def pendingOn_def pastAudio_def
              split: if_splits)+
      from second held t Some disconnectResume_tts [OF Some, of env]
      show ?thesis
        by (simp add: contextsInvariant_def tally_mid pendingOn_def pastAudio_def)
    qed
  qed
qed

lemma contexts_interleaving:
  "interleaving env c \<Longrightarrow> contextsInvariant c"
proof (induction rule: interleaving.induct)
  case (idle p)
  show ?case
    by (cases "heldContexts p" rule: held_cases) (simp_all add: contextsInvariant_def tally_def)
next
  case (call p calls)
  then show ?case by (simp add: contexts_call)
next
  case (resume p xs w ys)
  then show ?case by (simp add: contexts_resume)
next
  case (other p calls p')
  then show ?case by (simp add: contextsInvariant_def heldContexts_def)
qed

lemma pending_call_finds_manager:
  assumes "interleaving env (p, calls)"
    and "DisconnectAwaiting (CleanupPending (AudioCleanupPending aw Fulfilled)) \<in> set calls"
  shows "audioManagerRef p \<noteq> None"
proof
  assume gone: "audioManagerRef p = None"
  from assms(2) have "count_list calls (pendingOn aw) \<noteq> 0"
    by (simp add: pendingOn_def count_list_0_iff)
  with contexts_interleaving [OF assms(1)] gone show False
    by (cases aw) (simp_all add: contextsInvariant_def heldContexts_def tally_def)
qed

section \<open>Frames that are dropped\<close>

lemma route_unknown:
  assumes "getProp message ''type'' = Inr t"
    and "\<not> (\<exists>tag. t = Some (JStr tag) \<and> tag \<in> set recognizedTypes)"
  shows "routeMessage handlers message s = Inr s"
proof -
  from assms(2) have "\<forall>tag \<in> set recognizedTypes. t \<noteq> Some (JStr tag)" by blast
  then have "t \<noteq> Some (JStr ''transcription'')" "t \<noteq> Some (JStr ''tts_chunk'')"
    "t \<noteq> Some (JStr ''llm_response_chunk'')" "t \<noteq> Some (JStr ''emotion_update'')"
    "t \<noteq> Some (JStr ''connection_metadata'')" "t \<noteq> Some (JStr ''error'')"
    "t \<noteq> Some (JStr ''tts_interruption'')" "t \<noteq> Some (JStr ''system_message'')"
    "t \<noteq> Some (JStr ''turn_complete'')" "t \<noteq> Some (JStr ''idle_warning'')"
    by (simp_all add: recognizedTypes_def)
  then show ?thesis
    using assms(1) by (simp add: routeMessage_def)
qed

text \<open>
  C9. A frame whose text does not parse as JSON, and a frame whose message has a
  discriminator outside the recognized types (or none), pass through \<^verbatim>\<open>handleMessage\<close>
  without calling any handler: the state of the system, whatever it consists of (message
  log, connection state) and whatever the handlers would do to it, is the state before.
  \<^verbatim>\<open>routeMessage\<close> itself does not throw on such a message unless the message is null, and
  that TypeError is caught in \<^verbatim>\<open>handleMessage\<close>.
\<close>

theorem unknown_frame_dropped:
  "(jsonParse (dataString frame) = None \<longrightarrow> handleMessage jsonParse handlers frame s = s)
   \<and> (jsonParse (dataString frame) = Some message
        \<and> \<not> (\<exists>tag. discriminator message = Some tag \<and> tag \<in> set recognizedTypes) \<longrightarrow>
      handleMessage jsonParse handlers frame s = s
      \<and> (message \<noteq> JNull \<longrightarrow> routeMessage handlers message s = Inr s))"
proof (intro conjI impI)
  assume "jsonParse (dataString frame) = None"
  then show "handleMessage jsonParse handlers frame s = s" by (simp add: handleMessage_def)
next
  assume a: "jsonParse (dataString frame) = Some message
        \<and> \<not> (\<exists>tag. discriminator message = Some tag \<and> tag \<in> set recognizedTypes)"
  show "handleMessage jsonParse handlers frame s = s"
  proof (cases "getProp message ''type''")
    case (Inl e)
    with a show ?thesis by (simp add: handleMessage_def routeMessage_def)
  next
    case (Inr t)
    with a have "\<not> (\<exists>tag. t = Some (JStr tag) \<and> tag \<in> set recognizedTypes)"
      by (auto simp: discriminator_def)
    from route_unknown [OF Inr this, of handlers s] a show ?thesis
      by (simp add: handleMessage_def)
  qed
next
  assume a: "jsonParse (dataString frame) = Some message
        \<and> \<not> (\<exists>tag. discriminator message = Some tag \<and> tag \<in> set recognizedTypes)"
  assume "message \<noteq> JNull"
  then obtain t where t: "getProp message ''type'' = Inr t" by (cases message) auto
  with a have "\<not> (\<exists>tag. t = Some (JStr tag) \<and> tag \<in> set recognizedTypes)"
    by (auto simp: discriminator_def)
  from route_unknown [OF t this] show "routeMessage handlers message s = Inr s" .
qed

text \<open>
  The theorem on three frames: a text that is not JSON, a binary frame, and
  \<^verbatim>\<open>{"type":"pong"}\<close>; every handler would have appended a message to the log.
\<close>

theorem unknown_frame_dropped_witness:
  "parsePong (dataString (TextFrame ''hello'')) = None
   \<and> handleMessage parsePong tracingHandlers (TextFrame ''hello'') freshProvider = freshProvider
   \<and> parsePong (dataString (BinaryFrame [0, 1])) = None
   \<and> handleMessage parsePong tracingHandlers (BinaryFrame [0, 1]) freshProvider = freshProvider
   \<and> parsePong (dataString (TextFrame pongFrame)) = Some (JObj [(''type'', JStr ''pong'')])
   \<and> discriminator (JObj [(''type'', JStr ''pong'')]) = Some ''pong''
   \<and> ''pong'' \<notin> set recognizedTypes
   \<and> handleMessage parsePong tracingHandlers (TextFrame pongFrame) freshProvider = freshProvider
   \<and> routeMessage tracingHandlers (JObj [(''type'', JStr ''pong'')]) freshProvider
       = Inr freshProvider"
proof -
  have plain: "parsePong (dataString (TextFrame ''hello'')) = None"
    by (simp add: parsePong_def pongFrame_def)
  have binary: "parsePong (dataString (BinaryFrame [0, 1])) = None"
    by (simp add: parsePong_def pongFrame_def)
  have pong: "parsePong (dataString (TextFrame pongFrame)) = Some (JObj [(''type'', JStr ''pong'')])"
    by (simp add: parsePong_def)
  have tag: "discriminator (JObj [(''type'', JStr ''pong'')]) = Some ''pong''"
    by (simp add: discriminator_def)
  have unknown: "''pong'' \<notin> set recognizedTypes"
    by (simp add: recognizedTypes_def)
  have pre: "parsePong (dataString (TextFrame pongFrame)) = Some (JObj [(''type'', JStr ''pong'')])
      \<and> \<not> (\<exists>tag. discriminator (JObj [(''type'', JStr ''pong'')]) = Some tag
                \<and> tag \<in> set recognizedTypes)"
    using pong tag unknown by simp
  have notnull: "JObj [(''type'', JStr ''pong'')] \<noteq> JNull" by simp
  from unknown_frame_dropped [where jsonParse = parsePong and frame = "TextFrame ''hello''"
      and handlers = tracingHandlers and s = freshProvider] plain
  have r1: "handleMessage parsePong tracingHandlers (TextFrame ''hello'') freshProvider = freshProvider"
    by blast
  from unknown_frame_dropped [where jsonParse = parsePong and frame = "BinaryFrame [0, 1]"
      and handlers = tracingHandlers and s = freshProvider] binary
  have r2: "handleMessage parsePong tracingHandlers (BinaryFrame [0, 1]) freshProvider = freshProvider"
    by blast
  from unknown_frame_dropped [where jsonParse = parsePong and frame = "TextFrame pongFrame"
      and message = "JObj [(''type'', JStr ''pong'')]" and handlers = tracingHandlers
      and s = freshProvider] pre notnull
  have r3: "handleMessage parsePong tracingHandlers (TextFrame pongFrame) freshProvider = freshProvider
    \<and> routeMessage tracingHandlers (JObj [(''type'', JStr ''pong'')]) freshProvider = Inr freshProvider"
    by blast
  show ?thesis using plain binary pong tag unknown r1 r2 r3 by simp
qed

section \<open>Where the handlers leave the log\<close>

text \<open>
  Interim transcriptions coalesce: on a log without a streaming user message, a non-empty
  run of interim events leaves exactly one streaming user message, appended at the end,
  with the id given at the first event and the text of the last.
\<close>

lemma interim_messages:
  "interimEvent r \<Longrightarrow>
   messages (state (onTranscription env p r)) =
     messages (voiceReducer env (state p) (UPDATE_STREAMING_MESSAGE (transcript r) User))"
  by (simp add: onTranscription_def interimEvent_def dispatch_def Let_def split: if_splits)

lemma interim_first:
  assumes "interimEvent r" "list_all (\<lambda>m. \<not> streamingUser m) (messages (state p))"
  shows "messages (state (onTranscription env p r)) = messages (state p) @
     [\<lparr> msgId = ''streaming_'' @ showNat (dateNow env), msgType = User, content = transcript r,
        timestamp = newDate env, metadata = Some (emptyMetadata\<lparr> isStreaming := Some True \<rparr>) \<rparr>]"
proof -
  have "\<not> (1 \<le> length (messages (state p)) \<and> msgType (last (messages (state p))) = User
           \<and> streamingFlag (last (messages (state p))))"
  proof
    assume a: "1 \<le> length (messages (state p)) \<and> msgType (last (messages (state p))) = User
           \<and> streamingFlag (last (messages (state p)))"
    then have "messages (state p) \<noteq> []" by auto
    then have "last (messages (state p)) \<in> set (messages (state p))" by simp
    with assms(2) have "\<not> streamingUser (last (messages (state p)))"
      by (simp add: list_all_iff)
    with a show False by (simp add: streamingUser_def)
  qed
  then show ?thesis
    by (auto simp: interim_messages [OF assms(1)] Let_def)
qed

lemma interim_next:
  assumes "interimEvent r" "messages (state p) = base @ [m]" "streamingUser m"
  shows "messages (state (onTranscription env p r)) =
     base @ [m\<lparr> content := transcript r, timestamp := newDate env \<rparr>]"
  using assms(2,3)
  by (simp add: interim_messages [OF assms(1)] Let_def streamingUser_def)

lemma feed_streaming:
  assumes "list_all (\<lambda>(env, r). interimEvent r) evs"
    and "messages (state p) = base @ [m]" "streamingUser m"
  shows "messages (state (feed p evs)) =
     base @ [m\<lparr> content := (if evs = [] then content m else transcript (snd (last evs))),
                 timestamp := (if evs = [] then timestamp m else newDate (fst (last evs))) \<rparr>]"
  using assms
proof (induction evs arbitrary: p m)
  case Nil
  then show ?case by simp
next
  case (Cons ev evs)
  obtain env r where ev: "ev = (env, r)" by (cases ev)
  from Cons.prems ev have r: "interimEvent r" by simp
  let ?m = "m\<lparr> content := transcript r, timestamp := newDate env \<rparr>"
  have log: "messages (state (onTranscription env p r)) = base @ [?m]"
    using interim_next [OF r Cons.prems(2,3)] .
  have su: "streamingUser ?m" using Cons.prems(3) by (simp add: streamingUser_def streamingFlag_def)
  from Cons.prems(1) have rest: "list_all (\<lambda>(env, r). interimEvent r) evs" by simp
  from Cons.IH [OF rest log su] show ?case by (simp add: ev)
qed

lemma interim_transcriptions_coalesce:
  assumes "list_all (\<lambda>(env, r). interimEvent r) evs" "evs \<noteq> []"
    and "list_all (\<lambda>m. \<not> streamingUser m) (messages (state p))"
  shows "messages (state (feed p evs)) = messages (state p) @
     [\<lparr> msgId = ''streaming_'' @ showNat (dateNow (fst (hd evs))), msgType = User,
        content = transcript (snd (last evs)), timestamp = newDate (fst (last evs)),
        metadata = Some (emptyMetadata\<lparr> isStreaming := Some True \<rparr>) \<rparr>]"
    and "filter streamingUser (messages (state (feed p evs))) =
     [\<lparr> msgId = ''streaming_'' @ showNat (dateNow (fst (hd evs))), msgType = User,
        content = transcript (snd (last evs)), timestamp = newDate (fst (last evs)),
        metadata = Some (emptyMetadata\<lparr> isStreaming := Some True \<rparr>) \<rparr>]"
proof -
  from assms(2) obtain ev rest where evs: "evs = ev # rest" by (cases evs) auto
  obtain env r where ev: "ev = (env, r)" by (cases ev)
  from assms(1) evs ev have r: "interimEvent r" and rest: "list_all (\<lambda>(env, r). interimEvent r) rest"
    by simp_all
  let ?m = "\<lparr> msgId = ''streaming_'' @ showNat (dateNow env), msgType = User, content = transcript r,
        timestamp = newDate env, metadata = Some (emptyMetadata\<lparr> isStreaming := Some True \<rparr>) \<rparr>"
  have log: "messages (state (onTranscription env p r)) = messages (state p) @ [?m]"
    using interim_first [OF r assms(3)] .
  have su: "streamingUser ?m" by (simp add: streamingUser_def streamingFlag_def)
  from feed_streaming [OF rest log su]
  show one: "messages (state (feed p evs)) = messages (state p) @
     [\<lparr> msgId = ''streaming_'' @ showNat (dateNow (fst (hd evs))), msgType = User,
        content = transcript (snd (last evs)), timestamp = newDate (fst (last evs)),
        metadata = Some (emptyMetadata\<lparr> isStreaming := Some True \<rparr>) \<rparr>]"
    by (simp add: evs ev)
  have none: "filter streamingUser (messages (state p)) = []"
    using assms(3) by (simp add: list_all_iff filter_empty_conv)
  show "filter streamingUser (messages (state (feed p evs))) =
     [\<lparr> msgId = ''streaming_'' @ showNat (dateNow (fst (hd evs))), msgType = User,
        content = transcript (snd (last evs)), timestamp = newDate (fst (last evs)),
        metadata = Some (emptyMetadata\<lparr> isStreaming := Some True \<rparr>) \<rparr>]"
    by (simp add: one none streamingUser_def streamingFlag_def)
qed

text \<open>
  C1. The spec's scenario on the code: an interim transcription "hello" followed by the
  final transcription "hello world". The interim event creates the streaming user message;
  the final event does not finalize it but appends a second user message under a new id,
  and the first one stays in the log with its streaming flag set. The response-wait flag
  is set.
\<close>

theorem final_transcription_appends_beside_streaming_message:
  "map (\<lambda>m. (msgId m, msgType m, content m, streamingFlag m))
     (messages (state
       (onTranscription (clockAt 20 ''def'')
          (onTranscription (clockAt 10 ''abc'') freshProvider (transcription ''hello'' False))
          (transcription ''hello world'' True))))
   = [(''streaming_10'', User, ''hello'', True), (''msg_20_def'', User, ''hello world'', False)]
   \<and> isWaitingForResponse (state
       (onTranscription (clockAt 20 ''def'')
          (onTranscription (clockAt 10 ''abc'') freshProvider (transcription ''hello'' False))
          (transcription ''hello world'' True))) = True"
  by code_simp

text \<open>
  C2. An interim LLM chunk "Hel" followed by the final chunk "Hello". The interim chunk
  stores a generated id \<^verbatim>\<open>msg_...\<close> in \<^verbatim>\<open>currentStreamingMessageId\<close>, while the reducer
  gives the streaming message the id \<^verbatim>\<open>streaming_...\<close>. The final chunk finalizes by the
  stored id, which no message carries: the streaming assistant message keeps its interim
  text and its streaming flag. The response-wait flag is cleared.
\<close>

theorem final_llm_chunk_misses_streaming_message:
  "map (\<lambda>m. (msgId m, msgType m, content m, streamingFlag m))
     (messages (state
       (onLLMChunk (clockAt 20 ''def'')
          (onLLMChunk (clockAt 10 ''abc'') freshProvider (llmChunk ''Hel'' False))
          (llmChunk ''Hello'' True))))
   = [(''streaming_10'', Assistant, ''Hel'', True)]
   \<and> currentStreamingMessageId
       (onLLMChunk (clockAt 10 ''abc'') freshProvider (llmChunk ''Hel'' False))
     = Some ''msg_10_abc''
   \<and> isWaitingForResponse (state
       (onLLMChunk (clockAt 20 ''def'')
          (onLLMChunk (clockAt 10 ''abc'') freshProvider (llmChunk ''Hel'' False))
          (llmChunk ''Hello'' True))) = False"
  by code_simp

text \<open>
  Whatever the clock, the random suffix and the texts: after an interim chunk on a fresh
  provider, the final chunk leaves the log as the interim chunk left it.
\<close>

lemma final_llm_chunk_never_finalizes:
  "messages (state (onLLMChunk env2 (onLLMChunk env1 freshProvider (llmChunk c1 False))
                      (llmChunk c2 True)))
   = messages (state (onLLMChunk env1 freshProvider (llmChunk c1 False)))"
  by (simp add: onLLMChunk_def llmChunk_def freshProvider_def initialState_def dispatch_def
        refSet_def generateMessageId_def finalizeMessage_def Let_def)

text \<open>
  C3. The router turns a \<^verbatim>\<open>tts_interruption\<close> frame into an interruption object and calls
  \<^verbatim>\<open>onInterruption\<close>, which clears the TTS-playing flag and nothing else: the provider's
  audio manager is the one it was, so audio that is queued stays queued. \<^verbatim>\<open>clearTTSBuffer\<close>,
  which would empty the queue, is not called.
\<close>

theorem interruption_keeps_queued_audio:
  "handleInterruptionMessage env (JObj [(''type'', JStr ''tts_interruption'')])
     = Inr \<lparr> interruptionType = ''tts_interruption'', interruptionContent = [],
             interruptionTimestamp = JNum (of_nat (dateNow env)) \<rparr>
   \<and> isTTSPlaying (state (onInterruption env p interruption)) = False
   \<and> audioManagerRef (onInterruption env p interruption) = audioManagerRef p
   \<and> map_option bufferQueue (ttsWorkletNode playingAudio) = Some [[100, 200, 300]]
   \<and> map_option bufferQueue (ttsWorkletNode (clearTTSBuffer playingAudio)) = Some []"
  by (simp add: handleInterruptionMessage_def onInterruption_def dispatch_def playingAudio_def
        clearTTSBuffer_def)

text \<open>
  C4. A turn-complete event whose transcript is the content of the latest user message.
  When the handler sees the current log, it appends a second user message with the same
  content that carries the turn data, and the existing message stays without it. When the
  handler sees the log of the render that created it (here the initial state), nothing
  happens at all.
\<close>

theorem turn_complete_appends_duplicate:
  "map (\<lambda>m. (msgId m, msgType m, content m, map_option turnComplete (metadata m)))
     (messages (state
       (onTurnComplete (clockAt 20 ''def'')
          (state (onTranscription (clockAt 10 ''abc'') freshProvider (transcription ''hello'' True)))
          (onTranscription (clockAt 10 ''abc'') freshProvider (transcription ''hello'' True))
          (turnDone ''hello''))))
   = [(''msg_10_abc'', User, ''hello'', Some None), (''msg_20_def'', User, ''hello'', Some (Some True))]
   \<and> onTurnComplete (clockAt 20 ''def'') initialState
         (onTranscription (clockAt 10 ''abc'') freshProvider (transcription ''hello'' True))
         (turnDone ''hello'')
     = onTranscription (clockAt 10 ''abc'') freshProvider (transcription ''hello'' True)"
  by code_simp

end
